theory Spec2Isabelle
  imports Complex_Main "HOL-Library.Log_Nat"
begin

section \<open>The SEO scoring engine of \<open>src/app/page.tsx\<close>\<close>

text \<open>
  The page component holds two input strings, asks a data source for a snapshot of raw
  signals, computes seven sub-scores and their rounded mean, derives a list of
  recommendations from the result, and classifies the total.

  Conventions of the embedding:
  \<^item> a JavaScript \<open>number\<close> is a binary64 value; a finite one is the \<^typ>\<open>rat\<close> it denotes,
    and one that is an integer by its origin (a search position, a review count, the
    result of \<open>Math.round\<close>) is an \<^typ>\<open>int\<close>. The arithmetic on the ratings and on the
    sum of the sub-scores rounds every result to the nearest binary64 value, as the
    machine does (\<open>add64\<close>, \<open>mul64\<close>, \<open>div64\<close> below); the sub-scores computed from
    the lengths, the search position and the platform count have small integer operands
    and are written with exact operations. \<open>Infinity\<close>, \<open>NaN\<close> and the sign of zero are
    not modelled;
  \<^item> a JavaScript string is a \<^typ>\<open>string\<close>, one \<^typ>\<open>char\<close> per code unit, so
    \<open>.length\<close> is \<^const>\<open>length\<close>;
  \<^item> an object literal is a \<^theory_text>\<open>record\<close>; the \<open>socialMedia\<close> object, which the code
    both indexes by key and enumerates with \<open>Object.entries\<close>, is the list of its
    (key, value) pairs in property order;
  \<^item> a property name that two object types share is prefixed in one of them
    (\<open>api_socialMedia\<close>, \<open>api_reviews\<close>, \<open>sd_monthlySearches\<close>), and the properties
    \<open>text\<close> and \<open>class\<close> of the status badge are \<open>text'\<close> and \<open>class'\<close>;
  \<^item> a rejected promise or a \<open>throw\<close> is the \<open>Inl\<close> branch of a sum;
  \<^item> the React state cells of \<open>Home\<close> are the fields of one record that
    \<open>calculateSeoScore\<close> takes and returns.
\<close>

subsection \<open>Data model\<close>

record social_entry =
  exists :: bool
  followers :: "int option"

record review_entry =
  rating :: rat
  count :: int

record review_data =
  google :: review_entry
  yelp :: review_entry

text \<open>The value \<open>fetchSEOData\<close> resolves to.\<close>

record search_ranking =
  googlePosition :: int
  monthlySearches :: int
  competitorRanks :: "int list"

record api_data =
  searchRanking :: search_ranking
  api_socialMedia :: "(string \<times> social_entry) list"
  api_reviews :: review_data

text \<open>The local object \<open>score\<close> of \<open>calculateSEOMetrics\<close>, later \<open>SeoScore.details\<close>.\<close>

record score_details =
  nameLength :: rat
  addressCompleteness :: rat
  keywordOptimization :: rat
  googleRanking :: rat
  socialMediaPresence :: rat
  localSEO :: rat
  onlineReviews :: rat

record search_data =
  googleRank :: int
  sd_monthlySearches :: int
  competitorRanking :: "int list"

record SeoScore =
  total :: int
  details :: score_details
  searchData :: search_data
  socialMedia :: "(string \<times> social_entry) list"
  reviews :: review_data

datatype rec_status = good | warning | poor

datatype rec_priority = high | medium | low

record Recommendation =
  category :: string
  status :: rec_status
  message :: string
  improvement :: string
  priority :: rec_priority

datatype js_error = Error string

subsection \<open>JavaScript built-ins used by the code\<close>

text \<open>\<open>Math.round\<close>: the nearest integer, a tie going towards \<open>+\<infinity>\<close>.\<close>

definition Math_round :: "rat \<Rightarrow> int" where
  "Math_round x = \<lfloor>x + 1 / 2\<rfloor>"

text \<open>
  Binary64 arithmetic. A finite double is \<open>m \<times> 2\<^sup>k\<close> with \<open>\<bar>m\<bar> < 2\<^sup>5\<^sup>3\<close> and
  \<open>- 1074 \<le> k\<close>. \<open>binade x\<close> is the exponent \<open>e\<close> with \<open>2\<^sup>e \<le> \<bar>x\<bar> < 2\<^sup>e\<^sup>+\<^sup>1\<close>; the doubles
  around \<open>x\<close> are the multiples of \<open>2\<^sup>e\<^sup>-\<^sup>5\<^sup>2\<close> (of \<open>2\<^sup>-\<^sup>1\<^sup>0\<^sup>7\<^sup>4\<close> in the subnormal range,
  \<open>e < - 1022\<close>), and \<open>double_round x\<close> is the nearest of them, a tie going to the even
  multiple. \<open>+\<close>, \<open>*\<close> and \<open>/\<close> on doubles return the exact result rounded in this way.
  There is no overflow here: a result of magnitude \<open>2\<^sup>1\<^sup>0\<^sup>2\<^sup>4\<close> or more, which JavaScript
  turns into \<open>Infinity\<close>, stays finite; and \<open>div64\<close> is only used with the non-zero
  constant divisors of the code.
\<close>

definition binade :: "rat \<Rightarrow> int" where
  "binade x =
     (if 1 \<le> \<bar>x\<bar> then bitlen \<lfloor>\<bar>x\<bar>\<rfloor> - 1 else - bitlen (\<lceil>1 / \<bar>x\<bar>\<rceil> - 1))"

definition round_half_even :: "rat \<Rightarrow> int" where
  "round_half_even y =
     (let f = \<lfloor>y\<rfloor>; r = y - of_int f
      in if r < 1 / 2 then f else if 1 / 2 < r then f + 1 else if even f then f else f + 1)"

definition double_round :: "rat \<Rightarrow> rat" where
  "double_round x =
     (if x = 0 then 0
      else let q = 2 powi (max (binade x) (- 1022) - 52)
           in of_int (round_half_even (x / q)) * q)"

definition add64 :: "rat \<Rightarrow> rat \<Rightarrow> rat" where
  "add64 a b = double_round (a + b)"

definition mul64 :: "rat \<Rightarrow> rat \<Rightarrow> rat" where
  "mul64 a b = double_round (a * b)"

definition div64 :: "rat \<Rightarrow> rat \<Rightarrow> rat" where
  "div64 a b = double_round (a / b)"

text \<open>
  \<open>s.split(c)\<close> for a one-character separator: the string is cut at every occurrence of
  \<open>c\<close>, empty pieces are kept, and the empty string gives one empty piece. The first
  argument of \<open>split_from\<close> is the piece being read.
\<close>

fun split_from :: "string \<Rightarrow> char \<Rightarrow> string \<Rightarrow> string list" where
  "split_from cur c [] = [cur]"
| "split_from cur c (x # xs) =
     (if x = c then cur # split_from [] c xs else split_from (cur @ [x]) c xs)"

definition split_js :: "string \<Rightarrow> char \<Rightarrow> string list" where
  "split_js s c = split_from [] c s"

text \<open>
  \<open>toLowerCase\<close>, on the letters \<open>A\<close> to \<open>Z\<close>; every other code unit is left as it is
  (the Unicode case mappings beyond ASCII are not modelled; none of them produces or
  removes a space).
\<close>

definition lower_char :: "char \<Rightarrow> char" where
  "lower_char c =
     (if 65 \<le> (of_char c :: nat) \<and> (of_char c :: nat) \<le> 90
      then char_of ((of_char c :: nat) + 32) else c)"

definition toLowerCase :: "string \<Rightarrow> string" where
  "toLowerCase s = map lower_char s"

text \<open>\<open>xs.join(sep)\<close>.\<close>

fun join :: "string list \<Rightarrow> string \<Rightarrow> string" where
  "join [] sep = []"
| "join [x] sep = x"
| "join (x # y # ys) sep = x @ sep @ join (y # ys) sep"

text \<open>
  The decimal text a template literal inserts for an integer \<open>number\<close> (as JavaScript
  prints every integer of magnitude below \<open>10\<^sup>2\<^sup>1\<close>).
\<close>

fun nat_digits :: "nat \<Rightarrow> string" where
  "nat_digits n =
     (if n < 10 then [''0123456789'' ! n]
      else nat_digits (n div 10) @ [''0123456789'' ! (n mod 10)])"

declare nat_digits.simps [simp del]

definition number_text :: "int \<Rightarrow> string" where
  "number_text i = (if i < 0 then CHR ''-'' # nat_digits (nat (- i)) else nat_digits (nat i))"

subsection \<open>\<open>calculateSEOMetrics\<close>\<close>

definition socialPlatforms :: "string list" where
  "socialPlatforms = [''facebook'', ''instagram'', ''twitter'', ''linkedin'']"

text \<open>\<open>apiData.socialMedia[platform]?.exists\<close>: a missing key is falsy.\<close>

definition platform_exists :: "(string \<times> social_entry) list \<Rightarrow> string \<Rightarrow> bool" where
  "platform_exists sm platform =
     (case map_of sm platform of None \<Rightarrow> False | Some d \<Rightarrow> exists d)"

text \<open>\<open>Object.values(score)\<close>: the seven properties in the order the literal creates them.\<close>

definition Object_values :: "score_details \<Rightarrow> rat list" where
  "Object_values s =
     [nameLength s, addressCompleteness s, keywordOptimization s, googleRanking s,
      socialMediaPresence s, localSEO s, onlineReviews s]"

text \<open>
  The body of the \<open>try\<close> block, after the fetch has resolved to \<open>apiData\<close>. The object
  \<open>score\<close> is created with seven zeros and assigned field by field, as in the source.
  The ratings are doubles of any value, so every operation on them is a rounded one; the
  two counts are doubles that are integers. Only the sum of the two counts, and what is
  computed from it, can exceed the range of the doubles when the ratings are at most 5:
  there \<open>Math.min(100, \<dots>)\<close> is 100 for \<open>Infinity\<close> as it is for the finite value that
  stands for it here.
\<close>

definition score_name :: "string \<Rightarrow> score_details \<Rightarrow> score_details" where
  "score_name businessName score =
     (if length businessName > 0 then
        let score = score\<lparr>nameLength :=
              (if length businessName \<ge> 15 \<and> length businessName \<le> 30 then 30
               else if length businessName < 15
                 then of_int (Math_round ((of_nat (length businessName) / 15) * 30))
                 else of_int (Math_round ((40 / of_nat (length businessName)) * 30)))\<rparr>;
            keywords = split_js (toLowerCase businessName) CHR '' ''
        in score\<lparr>keywordOptimization := min (of_nat (length keywords) * 10) 30\<rparr>
      else score)"

definition score_address :: "string \<Rightarrow> score_details \<Rightarrow> score_details" where
  "score_address businessAddress score =
     (if length businessAddress > 0 then
        let addressParts = length (split_js businessAddress CHR '','')
        in score\<lparr>addressCompleteness := min (of_nat addressParts * 10) 40\<rparr>
      else score)"

definition score_signals :: "api_data \<Rightarrow> score_details \<Rightarrow> score_details" where
  "score_signals apiData score =
     (let score = score\<lparr>googleRanking :=
            max 0 (100 - of_int (googlePosition (searchRanking apiData)))\<rparr>;
          existingPlatforms =
            length (filter (platform_exists (api_socialMedia apiData)) socialPlatforms);
          score = score\<lparr>socialMediaPresence :=
            (of_nat existingPlatforms / of_nat (length socialPlatforms)) * 100\<rparr>;
          avgRating = div64 (add64 (rating (google (api_reviews apiData)))
                                   (rating (yelp (api_reviews apiData)))) 2;
          totalReviews = add64 (of_int (count (google (api_reviews apiData))))
                               (of_int (count (yelp (api_reviews apiData))));
          score = score\<lparr>localSEO :=
            min 100 (add64 (mul64 avgRating 10) (div64 totalReviews 10))\<rparr>
      in score\<lparr>onlineReviews :=
            min 100 (add64 (mul64 (div64 (rating (google (api_reviews apiData))) 5) 50)
                           (mul64 (div64 (rating (yelp (api_reviews apiData))) 5) 50))\<rparr>)"

definition compute_details :: "string \<Rightarrow> string \<Rightarrow> api_data \<Rightarrow> score_details" where
  "compute_details businessName businessAddress apiData =
     score_signals apiData
       (score_address businessAddress
         (score_name businessName
           \<lparr>nameLength = 0, addressCompleteness = 0, keywordOptimization = 0,
            googleRanking = 0, socialMediaPresence = 0, localSEO = 0, onlineReviews = 0\<rparr>))"

definition metrics_of :: "string \<Rightarrow> string \<Rightarrow> api_data \<Rightarrow> SeoScore" where
  "metrics_of businessName businessAddress apiData =
     (let score = compute_details businessName businessAddress apiData;
          total = div64 (foldl add64 0 (Object_values score)) 7
      in \<lparr>total = Math_round total,
          details = score,
          searchData = \<lparr>googleRank = googlePosition (searchRanking apiData),
                        sd_monthlySearches = monthlySearches (searchRanking apiData),
                        competitorRanking = competitorRanks (searchRanking apiData)\<rparr>,
          socialMedia = api_socialMedia apiData,
          reviews = api_reviews apiData\<rparr>)"

text \<open>
  \<open>calculateSEOMetrics\<close> itself: the outcome of \<open>await fetchSEOData(...)\<close> is the third
  argument, \<open>Inl\<close> when the promise rejects. The \<open>catch\<close> clause replaces whatever was
  thrown by one fixed error.
\<close>

definition calculateSEOMetrics ::
  "string \<Rightarrow> string \<Rightarrow> js_error + api_data \<Rightarrow> js_error + SeoScore" where
  "calculateSEOMetrics businessName businessAddress fetched =
     (case fetched of
        Inr apiData \<Rightarrow> Inr (metrics_of businessName businessAddress apiData)
      | Inl _ \<Rightarrow> Inl (Error ''Failed to fetch SEO data''))"

subsection \<open>\<open>generateRecommendations\<close>\<close>

text \<open>
  \<open>recs\<close> starts empty and each of the three \<open>if\<close> statements may push one record onto
  its end. \<open>push\<close> is \<open>recs.push(r)\<close>.
\<close>

definition push :: "'a list \<Rightarrow> 'a \<Rightarrow> 'a list" where
  "push recs r = recs @ [r]"

text \<open>The three object literals that the rules push.\<close>

definition ranking_rec :: "SeoScore \<Rightarrow> Recommendation" where
  "ranking_rec score =
     \<lparr>category = ''Search Engine Ranking'',
      status = poor,
      message = ''Current Google Ranking: Position ''
                @ number_text (googleRank (searchData score)),
      improvement = ''Improve website content, build quality backlinks, and optimize for relevant keywords'',
      priority = high\<rparr>"

definition social_rec :: "string list \<Rightarrow> Recommendation" where
  "social_rec missing =
     \<lparr>category = ''Social Media Presence'',
      status = warning,
      message = ''Missing presence on: '' @ join missing '', '',
      improvement = ''Create and maintain active profiles on missing social media platforms'',
      priority = medium\<rparr>"

definition reviews_rec :: "SeoScore \<Rightarrow> Recommendation" where
  "reviews_rec score =
     \<lparr>category = ''Online Reviews'',
      status = warning,
      message = ''Current reviews: Google ('' @ number_text (count (google (reviews score)))
                @ ''), Yelp ('' @ number_text (count (yelp (reviews score))) @ '')'',
      improvement = ''Encourage satisfied customers to leave reviews and respond to existing reviews'',
      priority = high\<rparr>"

definition generateRecommendations :: "SeoScore \<Rightarrow> Recommendation list" where
  "generateRecommendations score =
     (let recs = [];
          recs = (if googleRanking (details score) < 70
                  then push recs (ranking_rec score) else recs);
          missingSocialPlatforms =
            map fst (filter (\<lambda>(_, data). \<not> exists data) (socialMedia score));
          recs = (if length missingSocialPlatforms > 0
                  then push recs (social_rec missingSocialPlatforms) else recs);
          recs = (if count (google (reviews score)) < 100 \<or> count (yelp (reviews score)) < 50
                  then push recs (reviews_rec score) else recs)
      in recs)"

subsection \<open>\<open>calculateSeoScore\<close> and the component state\<close>

record home_state =
  businessName :: string
  businessAddress :: string
  seoScore :: "SeoScore option"
  recommendations :: "Recommendation list"
  isCalculating :: bool
  error :: "string option"

text \<open>
  The state after the handler has run to its end, given the state before it and the
  outcome of the fetch it awaits: the two setters before \<open>try\<close>, then either the two
  setters of the \<open>try\<close> block or the one of the \<open>catch\<close> clause, then \<open>finally\<close>.
\<close>

definition calculateSeoScore :: "home_state \<Rightarrow> js_error + api_data \<Rightarrow> home_state" where
  "calculateSeoScore st fetched =
     (let st = st\<lparr>isCalculating := True\<rparr>;
          st = st\<lparr>error := None\<rparr>;
          st = (case calculateSEOMetrics (businessName st) (businessAddress st) fetched of
                  Inr newScore \<Rightarrow>
                    (let st = st\<lparr>seoScore := Some newScore\<rparr>
                     in st\<lparr>recommendations := generateRecommendations newScore\<rparr>)
                | Inl _ \<Rightarrow>
                    st\<lparr>error := Some ''Failed to calculate SEO score. Please try again.''\<rparr>)
      in st\<lparr>isCalculating := False\<rparr>)"

subsection \<open>\<open>getOverallStatus\<close>\<close>

record overall_status =
  text' :: string
  class' :: string

definition getOverallStatus :: "int \<Rightarrow> overall_status" where
  "getOverallStatus = (\<lambda>total.
      if total \<ge> 70 then \<lparr>text' = ''GOOD'', class' = ''bg-green-50 text-green-600''\<rparr>
      else if total \<ge> 40 then \<lparr>text' = ''FAIR'', class' = ''bg-yellow-50 text-yellow-600''\<rparr>
      else \<lparr>text' = ''POOR'', class' = ''bg-red-50 text-red-600''\<rparr>)"

subsection \<open>The specification's token count\<close>

text \<open>
  The specification counts the whitespace-separated tokens of the name. This is that
  notion, written from the specification's words and not from the code: a token is a
  maximal run of characters that are not whitespace. \<open>spec_tokens_from\<close> carries the
  token being read.
\<close>

definition is_whitespace :: "char \<Rightarrow> bool" where
  "is_whitespace c \<longleftrightarrow>
     c = CHR '' '' \<or> c = CHR 0x09 \<or> c = CHR 0x0A \<or> c = CHR 0x0B \<or> c = CHR 0x0C \<or> c = CHR 0x0D"

fun spec_tokens_from :: "string \<Rightarrow> string \<Rightarrow> string list" where
  "spec_tokens_from cur [] = (if cur = [] then [] else [cur])"
| "spec_tokens_from cur (x # xs) =
     (if is_whitespace x
      then (if cur = [] then spec_tokens_from [] xs else cur # spec_tokens_from [] xs)
      else spec_tokens_from (cur @ [x]) xs)"

definition spec_whitespace_tokens :: "string \<Rightarrow> string list" where
  "spec_whitespace_tokens s = spec_tokens_from [] s"

text \<open>
  A piece of the name that is a token in the specification's sense: not empty, and free
  of whitespace.
\<close>

definition clean_piece :: "string \<Rightarrow> bool" where
  "clean_piece w \<longleftrightarrow> w \<noteq> [] \<and> list_all (\<lambda>c. \<not> is_whitespace c) w"

subsection \<open>The two means\<close>

text \<open>
  The specification's mean, in its words: the sum of the seven sub-scores divided by 7,
  as a number. And the mean as binary64 arithmetic computes it from the same seven:
  added one by one from 0 in the order of the object's properties, each sum rounded,
  and the quotient by 7 rounded.
\<close>

definition spec_mean :: "score_details \<Rightarrow> rat" where
  "spec_mean d =
     (nameLength d + addressCompleteness d + keywordOptimization d + googleRanking d
      + socialMediaPresence d + localSEO d + onlineReviews d) / 7"

definition double_mean :: "score_details \<Rightarrow> rat" where
  "double_mean d =
     div64
       (add64 (add64 (add64 (add64 (add64 (add64 (add64 0
          (nameLength d)) (addressCompleteness d)) (keywordOptimization d)) (googleRanking d))
          (socialMediaPresence d)) (localSEO d)) (onlineReviews d))
       7"

subsection \<open>Scores that list the tracked platforms\<close>

text \<open>
  \<open>generateRecommendations\<close> enumerates the properties that the \<open>socialMedia\<close> object
  has; \<open>calculateSEOMetrics\<close> looks the four tracked names up. The two meet on an object
  that has no other property than the tracked ones (no object has a property twice, and
  the type \<open>SeoScore\<close> admits no other name), and in particular on one that has all four
  in the order in which \<open>fetchSEOData\<close> writes them.
\<close>

definition tracked_only :: "(string \<times> social_entry) list \<Rightarrow> bool" where
  "tracked_only sm \<longleftrightarrow> distinct (map fst sm) \<and> set (map fst sm) \<subseteq> set socialPlatforms"

definition all_tracked :: "(string \<times> social_entry) list \<Rightarrow> bool" where
  "all_tracked sm \<longleftrightarrow> map fst sm = socialPlatforms"

text \<open>A tracked platform that is listed with \<open>exists = false\<close>.\<close>

definition exists_false :: "(string \<times> social_entry) list \<Rightarrow> string \<Rightarrow> bool" where
  "exists_false sm platform =
     (case map_of sm platform of None \<Rightarrow> False | Some d \<Rightarrow> \<not> exists d)"

subsection \<open>Sample inputs\<close>

text \<open>
  A snapshot of the shape \<open>fetchSEOData\<close> resolves to, and a component state that
  already holds an earlier result; the theorems below are instantiated at them. The
  two snapshots after it have ratings that are not dyadic: \<open>double_round (33 / 10)\<close> is
  the double that the literal \<open>3.3\<close> denotes.
\<close>

definition sample_signals :: api_data where
  "sample_signals =
     \<lparr>searchRanking = \<lparr>googlePosition = 42, monthlySearches = 1000, competitorRanks = [1, 3, 5, 8, 12]\<rparr>,
      api_socialMedia =
        [(''facebook'', \<lparr>exists = True, followers = Some 10\<rparr>),
         (''instagram'', \<lparr>exists = False, followers = Some 20\<rparr>),
         (''twitter'', \<lparr>exists = True, followers = Some 30\<rparr>),
         (''linkedin'', \<lparr>exists = False, followers = Some 40\<rparr>)],
      api_reviews = \<lparr>google = \<lparr>rating = 9 / 2, count = 120\<rparr>, yelp = \<lparr>rating = 4, count = 30\<rparr>\<rparr>\<rparr>"

definition drift_signals :: api_data where
  "drift_signals =
     \<lparr>searchRanking = \<lparr>googlePosition = 6, monthlySearches = 1000, competitorRanks = [1, 3, 5, 8, 12]\<rparr>,
      api_socialMedia =
        [(''facebook'', \<lparr>exists = True, followers = Some 10\<rparr>),
         (''instagram'', \<lparr>exists = False, followers = Some 20\<rparr>),
         (''twitter'', \<lparr>exists = True, followers = Some 30\<rparr>),
         (''linkedin'', \<lparr>exists = False, followers = Some 40\<rparr>)],
      api_reviews = \<lparr>google = \<lparr>rating = 3, count = 120\<rparr>,
                     yelp = \<lparr>rating = double_round (33 / 10), count = 30\<rparr>\<rparr>\<rparr>"

definition drift_signals' :: api_data where
  "drift_signals' =
     \<lparr>searchRanking = \<lparr>googlePosition = 10, monthlySearches = 1000, competitorRanks = [1, 3, 5, 8, 12]\<rparr>,
      api_socialMedia =
        [(''facebook'', \<lparr>exists = True, followers = Some 10\<rparr>),
         (''instagram'', \<lparr>exists = False, followers = Some 20\<rparr>),
         (''twitter'', \<lparr>exists = True, followers = Some 30\<rparr>),
         (''linkedin'', \<lparr>exists = False, followers = Some 40\<rparr>)],
      api_reviews = \<lparr>google = \<lparr>rating = double_round (41 / 10), count = 120\<rparr>,
                     yelp = \<lparr>rating = double_round (48 / 10), count = 30\<rparr>\<rparr>\<rparr>"

definition sample_state :: home_state where
  "sample_state =
     \<lparr>businessName = ''Joe's Pizza Place'',
      businessAddress = ''123 Main St, Springfield, IL, 62704'',
      seoScore = Some (metrics_of ''Joe's Pizza'' ''123 Main St'' sample_signals),
      recommendations = [social_rec [''instagram'', ''linkedin'']],
      isCalculating = False,
      error = None\<rparr>"

section \<open>Properties\<close>

subsection \<open>The built-ins\<close>

lemma Math_round_nearest:
  "of_int (Math_round x) - 1 / 2 \<le> x \<and> x < of_int (Math_round x) + 1 / 2"
  unfolding Math_round_def by linarith

lemma floor_rat_numeral:
  "\<lfloor>(numeral a / numeral b :: rat)\<rfloor> = numeral a div numeral b"
  using floor_divide_of_int_eq [of "numeral a" "numeral b", where ?'a = rat] by simp

lemma Math_round_of_int: "Math_round (of_int n) = n"
  unfolding Math_round_def by linarith

lemma Math_round_mono: "x \<le> y \<Longrightarrow> Math_round x \<le> Math_round y"
  unfolding Math_round_def by (simp add: floor_mono)

lemma length_split_from:
  "length (split_from cur c s) = Suc (length (filter (\<lambda>x. x = c) s))"
  by (induction s arbitrary: cur) simp_all

lemma length_split_js:
  "length (split_js s c) = Suc (length (filter (\<lambda>x. x = c) s))"
  by (simp add: split_js_def length_split_from)

lemma lower_char_low:
  assumes "(of_char d :: nat) < 65"
  shows "lower_char c = d \<longleftrightarrow> c = d"
proof (cases "65 \<le> (of_char c :: nat) \<and> (of_char c :: nat) \<le> 90")
  case True
  have "(of_char (char_of ((of_char c :: nat) + 32)) :: nat) = (of_char c + 32) mod 256"
    by (rule of_char_of)
  with True have "(of_char (lower_char c) :: nat) = of_char c + 32"
    by (simp add: lower_char_def)
  with True assms have "(of_char (lower_char c) :: nat) \<noteq> of_char d"
    by simp
  then have "lower_char c \<noteq> d"
    by auto
  moreover from True assms have "c \<noteq> d"
    by auto
  ultimately show ?thesis
    by simp
next
  case False
  then have "lower_char c = c"
    unfolding lower_char_def by (simp only: if_False)
  then show ?thesis
    by simp
qed

lemma lower_char_space: "lower_char c = CHR '' '' \<longleftrightarrow> c = CHR '' ''"
  by (simp add: lower_char_low)

lemma filter_space_toLowerCase:
  "filter (\<lambda>x. x = CHR '' '') (toLowerCase s) = filter (\<lambda>x. x = CHR '' '') s"
  by (induction s) (simp_all add: toLowerCase_def lower_char_space)

subsection \<open>Rounding to binary64\<close>

lemma powi_neg:
  assumes "0 \<le> k"
  shows "(2::rat) powi (- k) = 1 / 2 ^ nat k"
proof -
  have "(2::rat) powi (- k) = 1 / 2 powi k"
    by (rule power_int_minus_divide)
  also from assms have "\<dots> = 1 / 2 ^ nat k"
    by (simp add: power_int_def)
  finally show ?thesis .
qed

lemma binade_lower:
  assumes "x \<noteq> 0"
  shows "2 powi (binade x) \<le> \<bar>x\<bar>"
proof (cases "1 \<le> \<bar>x\<bar>")
  case True
  let ?n = "\<lfloor>\<bar>x\<bar>\<rfloor>"
  from True have n: "0 < ?n"
    by linarith
  then have b: "1 \<le> bitlen ?n"
    using bitlen_eq_zero_iff [of ?n] bitlen_nonneg [of ?n] by linarith
  from bitlen_bounds [OF n] have "2 ^ nat (bitlen ?n - 1) \<le> ?n"
    by simp
  then have "(of_int (2 ^ nat (bitlen ?n - 1)) :: rat) \<le> of_int ?n"
    by (simp only: of_int_le_iff)
  also have "(of_int ?n :: rat) \<le> \<bar>x\<bar>"
    by (rule of_int_floor_le)
  finally have "(2::rat) ^ nat (bitlen ?n - 1) \<le> \<bar>x\<bar>"
    by simp
  moreover from b have "(2::rat) powi (bitlen ?n - 1) = 2 ^ nat (bitlen ?n - 1)"
    by (simp add: power_int_def)
  ultimately show ?thesis
    using True by (simp add: binade_def)
next
  case False
  let ?m = "\<lceil>1 / \<bar>x\<bar>\<rceil>"
  let ?k = "bitlen (?m - 1)"
  from assms False have a: "0 < \<bar>x\<bar>" and a1: "\<bar>x\<bar> < 1"
    by simp_all
  then have "1 < 1 / \<bar>x\<bar>"
    by (simp add: field_simps)
  then have m: "0 < ?m - 1"
    by linarith
  from bitlen_bounds [OF m] have "?m - 1 < 2 ^ nat ?k"
    by simp
  then have "?m \<le> 2 ^ nat ?k"
    by linarith
  then have "(of_int ?m :: rat) \<le> of_int (2 ^ nat ?k)"
    by (simp only: of_int_le_iff)
  moreover have "1 / \<bar>x\<bar> \<le> of_int ?m"
    by (rule le_of_int_ceiling)
  ultimately have "1 / \<bar>x\<bar> \<le> (of_int (2 ^ nat ?k) :: rat)"
    by (rule order_trans [rotated])
  then have "1 / \<bar>x\<bar> \<le> (2::rat) ^ nat ?k"
    by simp
  with a have "1 / (2::rat) ^ nat ?k \<le> \<bar>x\<bar>"
    by (simp add: field_simps)
  moreover have "(2::rat) powi (- ?k) = 1 / 2 ^ nat ?k"
    using bitlen_nonneg [of "?m - 1"] by (rule powi_neg)
  ultimately show ?thesis
    using False by (simp add: binade_def)
qed

lemma binade_upper:
  assumes "x \<noteq> 0"
  shows "\<bar>x\<bar> < 2 powi (binade x + 1)"
proof (cases "1 \<le> \<bar>x\<bar>")
  case True
  let ?n = "\<lfloor>\<bar>x\<bar>\<rfloor>"
  from True have n: "0 < ?n"
    by linarith
  from bitlen_bounds [OF n] have "?n + 1 \<le> 2 ^ nat (bitlen ?n)"
    by simp
  then have "(of_int (?n + 1) :: rat) \<le> of_int (2 ^ nat (bitlen ?n))"
    by (simp only: of_int_le_iff)
  moreover have "\<bar>x\<bar> < of_int (?n + 1)"
    by linarith
  ultimately have "\<bar>x\<bar> < (2::rat) ^ nat (bitlen ?n)"
    by simp
  moreover have "(2::rat) powi (bitlen ?n) = 2 ^ nat (bitlen ?n)"
    using bitlen_nonneg [of ?n] by (simp add: power_int_def)
  ultimately show ?thesis
    using True by (simp add: binade_def)
next
  case False
  let ?m = "\<lceil>1 / \<bar>x\<bar>\<rceil>"
  let ?k = "bitlen (?m - 1)"
  from assms False have a: "0 < \<bar>x\<bar>" and a1: "\<bar>x\<bar> < 1"
    by simp_all
  then have "1 < 1 / \<bar>x\<bar>"
    by (simp add: field_simps)
  then have m: "0 < ?m - 1"
    by linarith
  then have k: "1 \<le> ?k"
    using bitlen_eq_zero_iff [of "?m - 1"] bitlen_nonneg [of "?m - 1"] by linarith
  from bitlen_bounds [OF m] have "2 ^ nat (?k - 1) \<le> ?m - 1"
    by simp
  then have "(of_int (2 ^ nat (?k - 1)) :: rat) \<le> of_int (?m - 1)"
    by (simp only: of_int_le_iff)
  moreover have "of_int (?m - 1) < 1 / \<bar>x\<bar>"
    by linarith
  ultimately have "(2::rat) ^ nat (?k - 1) < 1 / \<bar>x\<bar>"
    by simp
  with a have "\<bar>x\<bar> < 1 / (2::rat) ^ nat (?k - 1)"
    by (simp add: field_simps)
  moreover have "(2::rat) powi (- ?k + 1) = 1 / 2 ^ nat (?k - 1)"
  proof -
    have "(2::rat) powi (- ?k + 1) = 2 powi (- (?k - 1))"
      by simp
    also from k have "\<dots> = 1 / 2 ^ nat (?k - 1)"
      by (intro powi_neg) simp
    finally show ?thesis .
  qed
  ultimately show ?thesis
    using False by (simp add: binade_def)
qed

lemma round_half_even_between:
  "\<lfloor>y\<rfloor> \<le> round_half_even y \<and> round_half_even y \<le> \<lceil>y\<rceil>"
proof -
  have "\<lceil>y\<rceil> = \<lfloor>y\<rfloor> + 1" if "y - of_int \<lfloor>y\<rfloor> \<noteq> 0"
    using that by (simp add: ceiling_altdef)
  then show ?thesis
    by (auto simp add: round_half_even_def Let_def)
qed

lemma round_half_even_le:
  assumes "y \<le> of_int k"
  shows "round_half_even y \<le> k"
proof -
  from assms have "\<lceil>y\<rceil> \<le> k"
    by (simp only: ceiling_le_iff)
  with round_half_even_between [of y] show ?thesis
    by linarith
qed

lemma round_half_even_ge:
  assumes "of_int k \<le> y"
  shows "k \<le> round_half_even y"
proof -
  from assms have "k \<le> \<lfloor>y\<rfloor>"
    by (simp only: le_floor_iff)
  with round_half_even_between [of y] show ?thesis
    by linarith
qed

lemma round_half_even_error:
  "\<bar>of_int (round_half_even y) - y\<bar> \<le> 1 / 2"
proof -
  have "of_int \<lfloor>y\<rfloor> \<le> y" "y < of_int \<lfloor>y\<rfloor> + 1"
    by linarith+
  then show ?thesis
    by (auto simp add: round_half_even_def Let_def abs_le_iff)
qed

lemma quantum_pos: "(0::rat) < 2 powi k"
  by (simp add: zero_less_power_int)

lemma double_round_nonneg:
  assumes "0 \<le> x"
  shows "0 \<le> double_round x"
proof (cases "x = 0")
  case True
  then show ?thesis by (simp add: double_round_def)
next
  case False
  let ?q = "(2::rat) powi (max (binade x) (- 1022) - 52)"
  have q: "0 < ?q"
    by (rule quantum_pos)
  with assms have "of_int 0 \<le> x / ?q"
    by simp
  then have "0 \<le> round_half_even (x / ?q)"
    by (rule round_half_even_ge)
  with q have "0 \<le> of_int (round_half_even (x / ?q)) * ?q"
    by simp
  with False show ?thesis
    by (simp add: double_round_def Let_def)
qed

lemma double_round_nonpos:
  assumes "x \<le> 0"
  shows "double_round x \<le> 0"
proof (cases "x = 0")
  case True
  then show ?thesis by (simp add: double_round_def)
next
  case False
  let ?q = "(2::rat) powi (max (binade x) (- 1022) - 52)"
  have q: "0 < ?q"
    by (rule quantum_pos)
  with assms have "x / ?q \<le> of_int 0"
    by (simp add: divide_nonpos_pos)
  then have "round_half_even (x / ?q) \<le> 0"
    by (rule round_half_even_le)
  with q have "of_int (round_half_even (x / ?q)) * ?q \<le> 0"
    by (simp add: mult_le_0_iff)
  with False show ?thesis
    by (simp add: double_round_def Let_def)
qed

lemma double_round_le_int:
  assumes n: "0 \<le> n" "n < 2 ^ 53" and x: "x \<le> of_int n"
  shows "double_round x \<le> of_int n"
proof (cases "x \<le> 0")
  case True
  then have "double_round x \<le> 0"
    by (rule double_round_nonpos)
  with n show ?thesis
    by simp
next
  case False
  then have pos: "0 < x" and nz: "x \<noteq> 0"
    by simp_all
  let ?e = "binade x"
  let ?k = "max ?e (- 1022) - 52"
  let ?q = "(2::rat) powi ?k"
  have q: "0 < ?q"
    by (rule quantum_pos)
  have "2 powi ?e \<le> \<bar>x\<bar>"
    using nz by (rule binade_lower)
  also from pos x have "\<bar>x\<bar> \<le> of_int n"
    by simp
  also from n have "(of_int n :: rat) < 2 powi 53"
    by (simp add: of_int_less_numeral_power_cancel_iff)
  finally have "(2::rat) powi ?e < 2 powi 53" .
  then have "?e < 53"
    by (rule power_int_le_imp_less_exp [rotated]) simp_all
  then have k: "?k \<le> 0"
    by simp
  then have qinv: "?q = 1 / 2 ^ nat (- ?k)"
  proof -
    have "?q = 2 powi (- (- ?k))"
      by simp
    also from k have "\<dots> = 1 / 2 ^ nat (- ?k)"
      by (intro powi_neg) simp
    finally show ?thesis .
  qed
  then have nq: "of_int n / ?q = (of_int (n * 2 ^ nat (- ?k)) :: rat)"
    by simp
  from x q have "x / ?q \<le> of_int n / ?q"
    by (simp add: divide_right_mono)
  with nq have "x / ?q \<le> of_int (n * 2 ^ nat (- ?k))"
    by simp
  then have "round_half_even (x / ?q) \<le> n * 2 ^ nat (- ?k)"
    by (rule round_half_even_le)
  then have "(of_int (round_half_even (x / ?q)) :: rat) \<le> of_int (n * 2 ^ nat (- ?k))"
    by (simp only: of_int_le_iff)
  with q have "of_int (round_half_even (x / ?q)) * ?q \<le> of_int (n * 2 ^ nat (- ?k)) * ?q"
    by (simp add: mult_right_mono)
  also have "of_int (n * 2 ^ nat (- ?k)) * ?q = of_int n"
    using qinv by simp
  finally show ?thesis
    using nz by (simp add: double_round_def Let_def)
qed

lemma double_round_error:
  "\<bar>double_round x - x\<bar> \<le> \<bar>x\<bar> / 2 ^ 53 + 1 / 2 ^ 1075"
proof (cases "x = 0")
  case True
  then show ?thesis by (simp add: double_round_def)
next
  case False
  let ?e = "binade x"
  let ?k = "max ?e (- 1022) - 52"
  let ?q = "(2::rat) powi ?k"
  have q: "0 < ?q"
    by (rule quantum_pos)
  have "double_round x - x = (of_int (round_half_even (x / ?q)) - x / ?q) * ?q"
    using False q by (simp add: double_round_def Let_def field_simps)
  then have "\<bar>double_round x - x\<bar> = \<bar>of_int (round_half_even (x / ?q)) - x / ?q\<bar> * ?q"
    using q by (simp add: abs_mult)
  also have "\<dots> \<le> 1 / 2 * ?q"
    using round_half_even_error [of "x / ?q"] q by (simp add: mult_right_mono)
  finally have err: "\<bar>double_round x - x\<bar> \<le> ?q / 2"
    by simp
  have "?q \<le> \<bar>x\<bar> / 2 ^ 52 + 1 / 2 ^ 1074"
  proof (cases "- 1022 \<le> ?e")
    case True
    then have "?q = 2 powi (?e + (- 52))"
      by simp
    also have "\<dots> = 2 powi ?e * 2 powi (- 52)"
      by (rule power_int_add) simp
    also have "\<dots> = 2 powi ?e / 2 ^ 52"
      by (simp add: power_int_minus_divide)
    also have "\<dots> \<le> \<bar>x\<bar> / 2 ^ 52"
      using binade_lower [OF False] by (simp add: divide_right_mono)
    finally show ?thesis
      by simp
  next
    case False
    then have "?q = 2 powi (- 1074)"
      by simp
    also have "\<dots> = 1 / 2 ^ 1074"
      by (simp add: power_int_minus_divide)
    finally show ?thesis
      by simp
  qed
  with err show ?thesis
    by simp
qed

text \<open>Values that every binary64 implementation returns, ties included.\<close>

lemma double_round_known_values:
  "double_round (1 / 10) = 3602879701896397 / 36028797018963968"
  "add64 (double_round (1 / 10)) (double_round (2 / 10)) = 1351079888211149 / 4503599627370496"
  "div64 1 3 = 6004799503160661 / 18014398509481984"
  "double_round (2 ^ 53 + 1) = 2 ^ 53"
  "double_round (2 ^ 53 + 3) = 2 ^ 53 + 4"
  by code_simp+

text \<open>Below \<open>2\<^sup>-\<^sup>1\<^sup>0\<^sup>2\<^sup>2\<close> the doubles are the multiples of \<open>2\<^sup>-\<^sup>1\<^sup>0\<^sup>7\<^sup>4\<close>.\<close>

lemma double_round_subnormal:
  assumes "x \<noteq> 0" and "\<bar>x\<bar> < 1 / 2 ^ 1022"
  shows "double_round x = of_int (round_half_even (x * 2 ^ 1074)) / 2 ^ 1074"
proof -
  have "binade x < - 1022"
  proof (rule ccontr)
    assume "\<not> binade x < - 1022"
    then have "(2::rat) powi (- 1022) \<le> 2 powi (binade x)"
      by (intro power_int_increasing) simp_all
    also have "\<dots> \<le> \<bar>x\<bar>"
      using assms(1) by (rule binade_lower)
    finally show False
      using assms(2) by (simp add: power_int_minus_divide)
  qed
  then have "max (binade x) (- 1022) - 52 = - 1074"
    by simp
  then have q: "(2::rat) powi (max (binade x) (- 1022) - 52) = 1 / 2 ^ 1074"
    by (simp add: power_int_minus_divide)
  have e: "x / (1 / 2 ^ 1074) = x * 2 ^ 1074"
    by (rule divide_divide_eq_right [of x 1 "2 ^ 1074", simplified div_by_1])
  from assms(1) have "double_round x
      = of_int (round_half_even (x / 2 powi (max (binade x) (- 1022) - 52)))
        * 2 powi (max (binade x) (- 1022) - 52)"
    by (simp only: double_round_def Let_def if_False)
  also have "\<dots> = of_int (round_half_even (x * 2 ^ 1074)) * (1 / 2 ^ 1074)"
    by (simp only: q e)
  also have "\<dots> = of_int (round_half_even (x * 2 ^ 1074)) / 2 ^ 1074"
    by (rule times_divide_eq_right [of _ 1, simplified mult_1_right])
  finally show ?thesis .
qed

lemma double_round_subnormal_ties:
  "double_round (1 / 2 ^ 1075) = 0"
  "double_round (3 / 2 ^ 1075) = 1 / 2 ^ 1073"
proof -
  have h: "round_half_even (1 / 2) = 0" "round_half_even (3 / 2) = 2"
    by code_simp+
  have "(1 / 2 ^ 1075 :: rat) * 2 ^ 1074 = 1 / 2" "(3 / 2 ^ 1075 :: rat) * 2 ^ 1074 = 3 / 2"
    by simp_all
  with h have "round_half_even ((1 / 2 ^ 1075) * 2 ^ 1074) = 0"
    "round_half_even ((3 / 2 ^ 1075) * 2 ^ 1074) = 2"
    by (simp_all only:)
  moreover have "double_round (1 / 2 ^ 1075)
      = of_int (round_half_even ((1 / 2 ^ 1075) * 2 ^ 1074)) / 2 ^ 1074"
    by (rule double_round_subnormal) simp_all
  moreover have "double_round (3 / 2 ^ 1075)
      = of_int (round_half_even ((3 / 2 ^ 1075) * 2 ^ 1074)) / 2 ^ 1074"
    by (rule double_round_subnormal) simp_all
  ultimately show "double_round (1 / 2 ^ 1075) = 0" "double_round (3 / 2 ^ 1075) = 1 / 2 ^ 1073"
    by simp_all
qed

subsection \<open>What \<open>calculateSEOMetrics\<close> returns, field by field\<close>

lemma calculateSEOMetrics_Inr:
  "calculateSEOMetrics n a (Inr api) = Inr (metrics_of n a api)"
  by (simp add: calculateSEOMetrics_def)

lemma calculateSEOMetrics_Inl:
  "calculateSEOMetrics n a (Inl e) = Inl (Error ''Failed to fetch SEO data'')"
  by (simp add: calculateSEOMetrics_def)

lemmas details_defs =
  metrics_of_def compute_details_def score_signals_def score_address_def score_name_def Let_def

lemma total_metrics:
  "total (metrics_of n a api) = Math_round (double_mean (details (metrics_of n a api)))"
  by (simp add: metrics_of_def Let_def double_mean_def Object_values_def)

lemma nameLength_metrics:
  "nameLength (details (metrics_of n a api)) =
     (if n = [] then 0
      else if 15 \<le> length n \<and> length n \<le> 30 then 30
      else if length n < 15 then of_int (Math_round ((of_nat (length n) / 15) * 30))
      else of_int (Math_round ((40 / of_nat (length n)) * 30)))"
  by (simp add: details_defs)

lemma keywordOptimization_metrics:
  "keywordOptimization (details (metrics_of n a api)) =
     (if n = [] then 0
      else min (of_nat (length (split_js (toLowerCase n) CHR '' '')) * 10) 30)"
  by (simp add: details_defs)

lemma addressCompleteness_metrics:
  "addressCompleteness (details (metrics_of n a api)) =
     (if a = [] then 0 else min (of_nat (length (split_js a CHR '','')) * 10) 40)"
  by (simp add: details_defs)

lemma googleRanking_metrics:
  "googleRanking (details (metrics_of n a api)) =
     max 0 (100 - of_int (googlePosition (searchRanking api)))"
  by (simp add: details_defs)

lemma socialMediaPresence_metrics:
  "socialMediaPresence (details (metrics_of n a api)) =
     of_nat (length (filter (platform_exists (api_socialMedia api)) socialPlatforms)) / 4 * 100"
  by (simp add: details_defs socialPlatforms_def)

lemma localSEO_metrics:
  "localSEO (details (metrics_of n a api)) =
     min 100
       (add64
         (mul64 (div64 (add64 (rating (google (api_reviews api)))
                              (rating (yelp (api_reviews api)))) 2) 10)
         (div64 (add64 (of_int (count (google (api_reviews api))))
                       (of_int (count (yelp (api_reviews api))))) 10))"
  by (simp add: details_defs)

lemma onlineReviews_metrics:
  "onlineReviews (details (metrics_of n a api)) =
     min 100 (add64 (mul64 (div64 (rating (google (api_reviews api))) 5) 50)
                    (mul64 (div64 (rating (yelp (api_reviews api))) 5) 50))"
  by (simp add: details_defs)

lemmas sample_eval =
  calculateSEOMetrics_Inr nameLength_metrics keywordOptimization_metrics
  addressCompleteness_metrics googleRanking_metrics socialMediaPresence_metrics
  localSEO_metrics onlineReviews_metrics

subsection \<open>The total\<close>

lemma drift_details:
  "details (metrics_of ''Joe's Pizza Place'' ''123 Main St, Springfield, IL, 62704'' drift_signals)
     = \<lparr>nameLength = 30, addressCompleteness = 40, keywordOptimization = 30,
        googleRanking = 94, socialMediaPresence = 50, localSEO = 93 / 2,
        onlineReviews = 8866461766385663 / 140737488355328\<rparr>"
  by code_simp

lemma drift_double_mean:
  "Math_round (double_mean
      \<lparr>nameLength = 30, addressCompleteness = 40, keywordOptimization = 30,
        googleRanking = 94, socialMediaPresence = 50, localSEO = 93 / 2,
        onlineReviews = 8866461766385663 / 140737488355328\<rparr>) = 51"
  by code_simp

lemma drift_spec_mean:
  "Math_round (spec_mean
      \<lparr>nameLength = 30, addressCompleteness = 40, keywordOptimization = 30,
        googleRanking = 94, socialMediaPresence = 50, localSEO = 93 / 2,
        onlineReviews = 8866461766385663 / 140737488355328\<rparr>) = 50"
  by code_simp

text \<open>
  C1, as the specification states it: \<open>total\<close> is the sum of the seven sub-scores divided
  by 7 and rounded to the nearest integer. It is not, for the number that sum and
  quotient are: with ratings 3 and 3.3 the sub-scores returned are 30, 40, 30, 94, 50,
  46.5 and 62.99999999999999, their mean is below 50.5 and rounds to 50, and the total
  returned is 51, because the binary64 sum of the seven is exactly 353.5.
\<close>

theorem rounded_mean_counterexample:
  "total (projr (calculateSEOMetrics ''Joe's Pizza Place''
      ''123 Main St, Springfield, IL, 62704'' (Inr drift_signals))) = 51
   \<and> Math_round (spec_mean (details (projr (calculateSEOMetrics ''Joe's Pizza Place''
      ''123 Main St, Springfield, IL, 62704'' (Inr drift_signals))))) = 50"
proof -
  let ?s = "metrics_of ''Joe's Pizza Place'' ''123 Main St, Springfield, IL, 62704'' drift_signals"
  have "total ?s = 51"
    by (simp only: total_metrics drift_details drift_double_mean)
  moreover have "Math_round (spec_mean (details ?s)) = 50"
    by (simp only: drift_details drift_spec_mean)
  ultimately show ?thesis
    by (simp only: calculateSEOMetrics_Inr sum.sel)
qed

text \<open>
  C1, amended: whenever the fetch resolves, \<open>calculateSEOMetrics\<close> returns a score whose
  \<open>total\<close> is the nearest integer to the mean of the seven sub-scores as binary64
  arithmetic computes it: the sub-scores as they stand in \<open>details\<close> (none of them
  rescaled) added to 0 one after the other, every sum rounded to a double, and the last
  sum divided by 7 and rounded to a double.
\<close>

theorem total_is_rounded_double_mean:
  "\<exists>s. calculateSEOMetrics name address (Inr signals) = Inr s
     \<and> (let d = details s;
             mean = div64
               (add64 (add64 (add64 (add64 (add64 (add64 (add64 0
                  (nameLength d)) (addressCompleteness d)) (keywordOptimization d))
                  (googleRanking d)) (socialMediaPresence d)) (localSEO d)) (onlineReviews d))
               7
         in total s = Math_round mean
            \<and> of_int (total s) - 1 / 2 \<le> mean \<and> mean < of_int (total s) + 1 / 2)"
proof -
  let ?s = "metrics_of name address signals"
  let ?mean = "double_mean (details ?s)"
  have t: "total ?s = Math_round ?mean"
    by (rule total_metrics)
  have "of_int (Math_round ?mean) - 1 / 2 \<le> ?mean \<and> ?mean < of_int (Math_round ?mean) + 1 / 2"
    by (rule Math_round_nearest)
  with t have "total ?s = Math_round ?mean
      \<and> of_int (total ?s) - 1 / 2 \<le> ?mean \<and> ?mean < of_int (total ?s) + 1 / 2"
    by (simp only:)
  moreover have "calculateSEOMetrics name address (Inr signals) = Inr ?s"
    by (rule calculateSEOMetrics_Inr)
  ultimately show ?thesis
    unfolding Let_def double_mean_def by blast
qed


theorem total_is_rounded_double_mean_witness:
  "\<exists>s. calculateSEOMetrics ''Joe's Pizza Place'' ''123 Main St, Springfield, IL, 62704''
          (Inr drift_signals) = Inr s
     \<and> nameLength (details s) = 30 \<and> addressCompleteness (details s) = 40
     \<and> keywordOptimization (details s) = 30 \<and> googleRanking (details s) = 94
     \<and> socialMediaPresence (details s) = 50 \<and> localSEO (details s) = 93 / 2
     \<and> onlineReviews (details s) = 8866461766385663 / 140737488355328
     \<and> total s = 51"
proof -
  let ?s = "metrics_of ''Joe's Pizza Place'' ''123 Main St, Springfield, IL, 62704'' drift_signals"
  from total_is_rounded_double_mean
    [of "''Joe's Pizza Place''" "''123 Main St, Springfield, IL, 62704''" drift_signals]
  have "total ?s = Math_round (double_mean (details ?s))"
    by (simp add: calculateSEOMetrics_Inr Let_def double_mean_def)
  then have t: "total ?s = 51"
    by (simp only: drift_details drift_double_mean)
  have "calculateSEOMetrics ''Joe's Pizza Place'' ''123 Main St, Springfield, IL, 62704''
          (Inr drift_signals) = Inr ?s"
    by (rule calculateSEOMetrics_Inr)
  with t drift_details show ?thesis
    by (intro exI [of _ ?s]) simp
qed

subsection \<open>The name and the address\<close>

lemma short_name_ramp:
  "Math_round ((of_nat L / 15) * 30) = 2 * int L"
proof -
  have "(of_nat L / 15) * 30 = (of_int (2 * int L) :: rat)"
    by simp
  then show ?thesis
    by (simp only: Math_round_of_int)
qed

lemma long_name_taper:
  assumes "L > 0"
  shows "Math_round ((40 / of_nat L) * 30) = (2400 + int L) div (2 * int L)"
proof -
  have "(40 / of_nat L) * 30 + 1 / 2 = (of_int (2400 + int L) / of_int (2 * int L) :: rat)"
    using assms by (simp add: field_simps)
  then show ?thesis
    unfolding Math_round_def by (simp only: floor_divide_of_int_eq)
qed

text \<open>
  C2: for a non-empty name of length \<open>L\<close>, \<open>nameLength\<close> is 30 when \<open>15 \<le> L \<le> 30\<close>,
  \<open>round(L / 15 \<times> 30)\<close> when \<open>L < 15\<close> (which is \<open>2 L\<close>) and \<open>round((40 / L) \<times> 30)\<close>
  when \<open>L > 30\<close> (which is \<open>(2400 + L) div (2 L)\<close>).
\<close>

theorem nameLength_formula:
  assumes "name \<noteq> []"
  shows "\<exists>s. calculateSEOMetrics name address (Inr signals) = Inr s
     \<and> nameLength (details s) =
         (if 15 \<le> length name \<and> length name \<le> 30 then 30
          else if length name < 15
            then of_int (Math_round ((of_nat (length name) / 15) * 30))
            else of_int (Math_round ((40 / of_nat (length name)) * 30)))
     \<and> (length name < 15 \<longrightarrow> nameLength (details s) = 2 * of_nat (length name))
     \<and> (length name > 30 \<longrightarrow>
          nameLength (details s) = of_int ((2400 + int (length name)) div (2 * int (length name))))"
proof -
  let ?s = "metrics_of name address signals"
  let ?L = "length name"
  have formula: "nameLength (details ?s) =
         (if 15 \<le> ?L \<and> ?L \<le> 30 then 30
          else if ?L < 15 then of_int (Math_round ((of_nat ?L / 15) * 30))
          else of_int (Math_round ((40 / of_nat ?L) * 30)))"
    using assms by (simp only: nameLength_metrics if_False)
  have short: "nameLength (details ?s) = 2 * of_nat ?L" if "?L < 15"
    using that by (simp only: formula short_name_ramp) simp
  have long: "nameLength (details ?s) = of_int ((2400 + int ?L) div (2 * int ?L))" if "?L > 30"
  proof -
    from assms have "?L > 0" by simp
    then have "Math_round ((40 / of_nat ?L) * 30) = (2400 + int ?L) div (2 * int ?L)"
      by (rule long_name_taper)
    moreover from that have "nameLength (details ?s) = of_int (Math_round ((40 / of_nat ?L) * 30))"
      by (simp only: formula) simp
    ultimately show ?thesis by (simp only:)
  qed
  have "calculateSEOMetrics name address (Inr signals) = Inr ?s"
    by (rule calculateSEOMetrics_Inr)
  with formula short long show ?thesis
    by blast
qed

theorem nameLength_formula_witness:
  "''Joe's'' \<noteq> [] \<and> ''Joe's Pizza Place'' \<noteq> []
   \<and> ''Joe's Famous Brick Oven Pizza Place'' \<noteq> []
   \<and> (\<exists>s. calculateSEOMetrics ''Joe's'' ''1 Main St'' (Inr sample_signals) = Inr s
          \<and> nameLength (details s) = 10)
   \<and> (\<exists>s. calculateSEOMetrics ''Joe's Pizza Place'' ''1 Main St'' (Inr sample_signals) = Inr s
          \<and> nameLength (details s) = 30)
   \<and> (\<exists>s. calculateSEOMetrics ''Joe's Famous Brick Oven Pizza Place'' ''1 Main St''
             (Inr sample_signals) = Inr s
          \<and> nameLength (details s) = 34)"
  using nameLength_formula [of "''Joe's''" "''1 Main St''" sample_signals]
    nameLength_formula [of "''Joe's Pizza Place''" "''1 Main St''" sample_signals]
    nameLength_formula [of "''Joe's Famous Brick Oven Pizza Place''" "''1 Main St''" sample_signals]
  by (simp add: calculateSEOMetrics_Inr)

text \<open>
  C7: \<open>addressCompleteness\<close> is \<open>min(segmentCount \<times> 10, 40)\<close>, the segments being the
  pieces of the address between commas (one more than there are commas), except that the
  empty address scores 0; and the empty name scores 0 for both of its sub-scores. In
  each case the call returns a score.
\<close>

theorem addressCompleteness_segments:
  "\<exists>s. calculateSEOMetrics name address (Inr signals) = Inr s
     \<and> addressCompleteness (details s) =
         (if address = [] then 0
          else min (of_nat (length (split_js address CHR '','')) * 10) 40)
     \<and> length (split_js address CHR '','') = Suc (length (filter (\<lambda>x. x = CHR '','') address))
     \<and> (name = [] \<longrightarrow> nameLength (details s) = 0 \<and> keywordOptimization (details s) = 0)"
  by (simp add: calculateSEOMetrics_Inr addressCompleteness_metrics nameLength_metrics
      keywordOptimization_metrics length_split_js)

theorem addressCompleteness_segments_witness:
  "(\<exists>s. calculateSEOMetrics [] ''123 Main St, Springfield, IL, 62704'' (Inr sample_signals) = Inr s
      \<and> addressCompleteness (details s) = 40
      \<and> nameLength (details s) = 0 \<and> keywordOptimization (details s) = 0)
   \<and> (\<exists>s. calculateSEOMetrics ''Joe's'' ''123 Main St, Springfield'' (Inr sample_signals) = Inr s
      \<and> addressCompleteness (details s) = 20)
   \<and> (\<exists>s. calculateSEOMetrics ''Joe's'' [] (Inr sample_signals) = Inr s
      \<and> addressCompleteness (details s) = 0)"
  using addressCompleteness_segments [of "[]" "''123 Main St, Springfield, IL, 62704''" sample_signals]
    addressCompleteness_segments [of "''Joe's''" "''123 Main St, Springfield''" sample_signals]
    addressCompleteness_segments [of "''Joe's''" "[]" sample_signals]
  by (simp add: calculateSEOMetrics_Inr)

subsection \<open>The search position\<close>

text \<open>
  C6: \<open>googleRanking\<close> is \<open>max(0, 100 - googlePosition)\<close>: 100 at position 0, 0 at every
  position from 100 on, never negative.
\<close>

theorem googleRanking_clamped:
  "\<exists>s. calculateSEOMetrics name address (Inr signals) = Inr s
     \<and> googleRanking (details s) = of_int (max 0 (100 - googlePosition (searchRanking signals)))
     \<and> (googlePosition (searchRanking signals) = 0 \<longrightarrow> googleRanking (details s) = 100)
     \<and> (googlePosition (searchRanking signals) \<ge> 100 \<longrightarrow> googleRanking (details s) = 0)
     \<and> googleRanking (details s) \<ge> 0"
  by (simp add: calculateSEOMetrics_Inr googleRanking_metrics)

theorem googleRanking_clamped_witness:
  "(\<exists>s. calculateSEOMetrics ''Joe's'' ''1 Main St''
          (Inr (sample_signals\<lparr>searchRanking := \<lparr>googlePosition = 0, monthlySearches = 0, competitorRanks = []\<rparr>\<rparr>)) = Inr s
      \<and> googleRanking (details s) = 100)
   \<and> (\<exists>s. calculateSEOMetrics ''Joe's'' ''1 Main St''
          (Inr (sample_signals\<lparr>searchRanking := \<lparr>googlePosition = 150, monthlySearches = 0, competitorRanks = []\<rparr>\<rparr>)) = Inr s
      \<and> googleRanking (details s) = 0)
   \<and> (\<exists>s. calculateSEOMetrics ''Joe's'' ''1 Main St'' (Inr sample_signals) = Inr s
      \<and> googleRanking (details s) = 58)"
  using googleRanking_clamped [of "''Joe's''" "''1 Main St''" "sample_signals\<lparr>searchRanking := \<lparr>googlePosition = 0, monthlySearches = 0, competitorRanks = []\<rparr>\<rparr>"]
   googleRanking_clamped [of "''Joe's''" "''1 Main St''" "sample_signals\<lparr>searchRanking := \<lparr>googlePosition = 150, monthlySearches = 0, competitorRanks = []\<rparr>\<rparr>"]
   googleRanking_clamped [of "''Joe's''" "''1 Main St''" "sample_signals"]
  by (simp add: calculateSEOMetrics_Inr sample_signals_def)

subsection \<open>The status classifier\<close>

text \<open>
  C8: \<open>getOverallStatus\<close> answers GOOD exactly for totals of at least 70, FAIR exactly for
  totals from 40 up to but excluding 70, and POOR exactly for totals below 40.
\<close>

theorem getOverallStatus_bands:
  "(text' (getOverallStatus t) = ''GOOD'' \<longleftrightarrow> t \<ge> 70)
   \<and> (text' (getOverallStatus t) = ''FAIR'' \<longleftrightarrow> 40 \<le> t \<and> t < 70)
   \<and> (text' (getOverallStatus t) = ''POOR'' \<longleftrightarrow> t < 40)"
  by (simp add: getOverallStatus_def)

theorem getOverallStatus_bands_witness:
  "text' (getOverallStatus 70) = ''GOOD'' \<and> text' (getOverallStatus 69) = ''FAIR''
   \<and> text' (getOverallStatus 40) = ''FAIR'' \<and> text' (getOverallStatus 39) = ''POOR''"
  using getOverallStatus_bands [of 70] getOverallStatus_bands [of 69]
    getOverallStatus_bands [of 40] getOverallStatus_bands [of 39]
  by simp

subsection \<open>A failed fetch\<close>

text \<open>
  C9: when the fetch fails, whatever it failed with, \<open>calculateSEOMetrics\<close> fails with the
  one error \<open>Failed to fetch SEO data\<close> and returns no score; \<open>calculateSeoScore\<close> then
  sets the error message \<open>Failed to calculate SEO score. Please try again.\<close> and leaves
  the stored score and the stored recommendations as they were.
\<close>

theorem fetch_failure_keeps_previous_result:
  "calculateSEOMetrics (businessName st) (businessAddress st) (Inl e)
     = Inl (Error ''Failed to fetch SEO data'')
   \<and> error (calculateSeoScore st (Inl e))
       = Some ''Failed to calculate SEO score. Please try again.''
   \<and> seoScore (calculateSeoScore st (Inl e)) = seoScore st
   \<and> recommendations (calculateSeoScore st (Inl e)) = recommendations st"
  by (simp add: calculateSeoScore_def calculateSEOMetrics_Inl Let_def)

theorem fetch_failure_keeps_previous_result_witness:
  "error (calculateSeoScore sample_state (Inl (Error ''network down'')))
       = Some ''Failed to calculate SEO score. Please try again.''
   \<and> seoScore (calculateSeoScore sample_state (Inl (Error ''network down'')))
       = Some (metrics_of ''Joe's Pizza'' ''123 Main St'' sample_signals)
   \<and> recommendations (calculateSeoScore sample_state (Inl (Error ''network down'')))
       = [social_rec [''instagram'', ''linkedin'']]"
  using fetch_failure_keeps_previous_result [of sample_state "Error ''network down''"]
  by (simp add: sample_state_def)

subsection \<open>The range of the scores\<close>

lemma add64_nonneg: "0 \<le> a \<Longrightarrow> 0 \<le> b \<Longrightarrow> 0 \<le> add64 a b"
  unfolding add64_def by (rule double_round_nonneg) simp

lemma mul64_nonneg: "0 \<le> a \<Longrightarrow> 0 \<le> b \<Longrightarrow> 0 \<le> mul64 a b"
  unfolding mul64_def by (rule double_round_nonneg) simp

lemma div64_nonneg: "0 \<le> a \<Longrightarrow> 0 \<le> b \<Longrightarrow> 0 \<le> div64 a b"
  unfolding div64_def by (rule double_round_nonneg) simp

lemma add64_le:
  assumes "a \<le> of_int m" and "b \<le> of_int n" and "0 \<le> m + n" and "m + n < 2 ^ 53"
  shows "add64 a b \<le> of_int (m + n)"
  unfolding add64_def using assms by (intro double_round_le_int) simp_all

lemma double_round_close:
  assumes "\<bar>x\<bar> \<le> 700"
  shows "\<bar>double_round x - x\<bar> \<le> 1 / 2 ^ 43"
proof -
  have "\<bar>double_round x - x\<bar> \<le> \<bar>x\<bar> / 2 ^ 53 + 1 / 2 ^ 1075"
    by (rule double_round_error)
  also from assms have "\<bar>x\<bar> / 2 ^ 53 \<le> 700 / 2 ^ 53"
    by (simp add: divide_right_mono)
  then have "\<bar>x\<bar> / 2 ^ 53 + 1 / 2 ^ 1075 \<le> 700 / 2 ^ 53 + (1 / 2 ^ 1075 :: rat)"
    by simp
  also have "700 / 2 ^ 53 + 1 / 2 ^ 1075 \<le> (1 / 2 ^ 43 :: rat)"
    by simp
  finally show ?thesis .
qed

lemma Math_round_range:
  assumes "of_int lo \<le> x" and "x \<le> of_int hi"
  shows "lo \<le> Math_round x \<and> Math_round x \<le> hi"
  using Math_round_mono [OF assms(1)] Math_round_mono [OF assms(2)]
  by (simp only: Math_round_of_int)

lemma nameLength_range:
  "0 \<le> nameLength (details (metrics_of n a api))
   \<and> nameLength (details (metrics_of n a api)) \<le> 100"
proof -
  let ?L = "length n"
  consider "n = []" | "15 \<le> ?L \<and> ?L \<le> 30" | "n \<noteq> []" "?L < 15" | "?L > 30"
    by fastforce
  then show ?thesis
  proof cases
    case 1
    then show ?thesis by (simp add: nameLength_metrics)
  next
    case 2
    then show ?thesis by (auto simp add: nameLength_metrics)
  next
    case 3
    then have "nameLength (details (metrics_of n a api)) = of_int (2 * int ?L)"
      by (simp only: nameLength_metrics short_name_ramp) simp
    with 3 show ?thesis by simp
  next
    case 4
    then have "n \<noteq> []"
      by auto
    with 4 have pos: "(0::rat) < of_nat ?L" and big: "(30::rat) \<le> of_nat ?L"
      by simp_all
    have "(40 / of_nat ?L) * 30 = (1200 / of_nat ?L :: rat)"
      by simp
    moreover have "(0::rat) \<le> 1200 / of_nat ?L"
      by simp
    moreover have "1200 / of_nat ?L \<le> (40::rat)"
      using pos big by (simp add: field_simps)
    ultimately have "(of_int 0 :: rat) \<le> (40 / of_nat ?L) * 30"
        "(40 / of_nat ?L) * 30 \<le> (of_int 40 :: rat)"
      by simp_all
    then have "0 \<le> Math_round ((40 / of_nat ?L) * 30) \<and> Math_round ((40 / of_nat ?L) * 30) \<le> 40"
      by (rule Math_round_range)
    moreover from 4 have "nameLength (details (metrics_of n a api))
        = of_int (Math_round ((40 / of_nat ?L) * 30))"
      by (auto simp add: nameLength_metrics)
    ultimately show ?thesis
      by simp
  qed
qed

lemma keywordOptimization_range:
  "0 \<le> keywordOptimization (details (metrics_of n a api))
   \<and> keywordOptimization (details (metrics_of n a api)) \<le> 100"
  by (simp add: keywordOptimization_metrics min_le_iff_disj)

lemma addressCompleteness_range:
  "0 \<le> addressCompleteness (details (metrics_of n a api))
   \<and> addressCompleteness (details (metrics_of n a api)) \<le> 100"
  by (simp add: addressCompleteness_metrics min_le_iff_disj)

lemma googleRanking_range:
  "0 \<le> googlePosition (searchRanking api) \<Longrightarrow>
   0 \<le> googleRanking (details (metrics_of n a api))
   \<and> googleRanking (details (metrics_of n a api)) \<le> 100"
  by (simp add: googleRanking_metrics)

lemma socialMediaPresence_range:
  "0 \<le> socialMediaPresence (details (metrics_of n a api))
   \<and> socialMediaPresence (details (metrics_of n a api)) \<le> 100"
proof -
  have "length (filter (platform_exists (api_socialMedia api)) socialPlatforms)
          \<le> length socialPlatforms"
    by (rule length_filter_le)
  then have "length (filter (platform_exists (api_socialMedia api)) socialPlatforms) \<le> 4"
    by (simp add: socialPlatforms_def)
  then have "(of_nat (length (filter (platform_exists (api_socialMedia api)) socialPlatforms)) :: rat)
          \<le> 4"
    by (metis of_nat_le_iff of_nat_numeral)
  then show ?thesis
    by (simp add: socialMediaPresence_metrics)
qed


lemma localSEO_range:
  assumes "0 \<le> rating (google (api_reviews api))" and "0 \<le> rating (yelp (api_reviews api))"
    and "0 \<le> count (google (api_reviews api))" and "0 \<le> count (yelp (api_reviews api))"
  shows "0 \<le> localSEO (details (metrics_of n a api))
   \<and> localSEO (details (metrics_of n a api)) \<le> 100"
proof -
  have "0 \<le> mul64 (div64 (add64 (rating (google (api_reviews api)))
                              (rating (yelp (api_reviews api)))) 2) 10"
    using assms(1,2) by (intro mul64_nonneg div64_nonneg add64_nonneg) simp_all
  moreover have "0 \<le> div64 (add64 (of_int (count (google (api_reviews api))))
                       (of_int (count (yelp (api_reviews api))))) 10"
    using assms(3,4) by (intro div64_nonneg add64_nonneg) simp_all
  ultimately have "0 \<le> add64
         (mul64 (div64 (add64 (rating (google (api_reviews api)))
                              (rating (yelp (api_reviews api)))) 2) 10)
         (div64 (add64 (of_int (count (google (api_reviews api))))
                       (of_int (count (yelp (api_reviews api))))) 10)"
    by (rule add64_nonneg)
  then show ?thesis
    by (simp add: localSEO_metrics)
qed

lemma onlineReviews_range:
  assumes "0 \<le> rating (google (api_reviews api))" and "0 \<le> rating (yelp (api_reviews api))"
  shows "0 \<le> onlineReviews (details (metrics_of n a api))
   \<and> onlineReviews (details (metrics_of n a api)) \<le> 100"
proof -
  have "0 \<le> add64 (mul64 (div64 (rating (google (api_reviews api))) 5) 50)
                    (mul64 (div64 (rating (yelp (api_reviews api))) 5) 50)"
    using assms by (intro mul64_nonneg div64_nonneg add64_nonneg) simp_all
  then show ?thesis
    by (simp add: onlineReviews_metrics)
qed

text \<open>
  The seven partial sums of sub-scores between 0 and 100 stay between 0 and 700, each
  within \<open>2\<^sup>-\<^sup>4\<^sup>3\<close> of the exact sum of its operands, and so does the quotient.
\<close>

lemma add64_step:
  assumes s: "0 \<le> s" "s \<le> of_int m" and f: "0 \<le> f" "f \<le> 100" and m: "0 \<le> m" "m \<le> 600"
  shows "0 \<le> add64 s f \<and> add64 s f \<le> of_int (m + 100)
     \<and> add64 s f - (s + f) \<le> 1 / 2 ^ 43 \<and> s + f - add64 s f \<le> 1 / 2 ^ 43"
proof -
  have "0 \<le> add64 s f"
    using s(1) f(1) by (rule add64_nonneg)
  moreover have "add64 s f \<le> of_int (m + 100)"
    using s(2) f(2) m by (intro add64_le) simp_all
  moreover have "\<bar>s + f\<bar> \<le> 700"
    using s f m by simp
  then have "\<bar>double_round (s + f) - (s + f)\<bar> \<le> 1 / 2 ^ 43"
    by (rule double_round_close)
  then have "add64 s f - (s + f) \<le> 1 / 2 ^ 43 \<and> s + f - add64 s f \<le> 1 / 2 ^ 43"
    unfolding add64_def by (simp only: abs_le_iff) simp
  ultimately show ?thesis
    by simp
qed

lemma double_mean_range_close:
  fixes d :: score_details
  assumes "0 \<le> nameLength d \<and> nameLength d \<le> 100"
    and "0 \<le> addressCompleteness d \<and> addressCompleteness d \<le> 100"
    and "0 \<le> keywordOptimization d \<and> keywordOptimization d \<le> 100"
    and "0 \<le> googleRanking d \<and> googleRanking d \<le> 100"
    and "0 \<le> socialMediaPresence d \<and> socialMediaPresence d \<le> 100"
    and "0 \<le> localSEO d \<and> localSEO d \<le> 100"
    and "0 \<le> onlineReviews d \<and> onlineReviews d \<le> 100"
  shows "0 \<le> double_mean d \<and> double_mean d \<le> 100
     \<and> \<bar>double_mean d - spec_mean d\<bar> \<le> 1 / 2 ^ 42"
proof -
  define s1 where "s1 = add64 0 (nameLength d)"
  define s2 where "s2 = add64 s1 (addressCompleteness d)"
  define s3 where "s3 = add64 s2 (keywordOptimization d)"
  define s4 where "s4 = add64 s3 (googleRanking d)"
  define s5 where "s5 = add64 s4 (socialMediaPresence d)"
  define s6 where "s6 = add64 s5 (localSEO d)"
  define s7 where "s7 = add64 s6 (onlineReviews d)"
  have b1: "0 \<le> s1 \<and> s1 \<le> of_int (0 + 100)
      \<and> s1 - (0 + nameLength d) \<le> 1 / 2 ^ 43 \<and> 0 + nameLength d - s1 \<le> 1 / 2 ^ 43"
    unfolding s1_def using assms(1) by (intro add64_step) simp_all
  have b2: "0 \<le> s2 \<and> s2 \<le> of_int (100 + 100)
      \<and> s2 - (s1 + addressCompleteness d) \<le> 1 / 2 ^ 43
      \<and> s1 + addressCompleteness d - s2 \<le> 1 / 2 ^ 43"
    unfolding s2_def using assms(2) b1 by (intro add64_step) simp_all
  have b3: "0 \<le> s3 \<and> s3 \<le> of_int (200 + 100)
      \<and> s3 - (s2 + keywordOptimization d) \<le> 1 / 2 ^ 43
      \<and> s2 + keywordOptimization d - s3 \<le> 1 / 2 ^ 43"
    unfolding s3_def using assms(3) b2 by (intro add64_step) simp_all
  have b4: "0 \<le> s4 \<and> s4 \<le> of_int (300 + 100)
      \<and> s4 - (s3 + googleRanking d) \<le> 1 / 2 ^ 43
      \<and> s3 + googleRanking d - s4 \<le> 1 / 2 ^ 43"
    unfolding s4_def using assms(4) b3 by (intro add64_step) simp_all
  have b5: "0 \<le> s5 \<and> s5 \<le> of_int (400 + 100)
      \<and> s5 - (s4 + socialMediaPresence d) \<le> 1 / 2 ^ 43
      \<and> s4 + socialMediaPresence d - s5 \<le> 1 / 2 ^ 43"
    unfolding s5_def using assms(5) b4 by (intro add64_step) simp_all
  have b6: "0 \<le> s6 \<and> s6 \<le> of_int (500 + 100)
      \<and> s6 - (s5 + localSEO d) \<le> 1 / 2 ^ 43
      \<and> s5 + localSEO d - s6 \<le> 1 / 2 ^ 43"
    unfolding s6_def using assms(6) b5 by (intro add64_step) simp_all
  have b7: "0 \<le> s7 \<and> s7 \<le> of_int (600 + 100)
      \<and> s7 - (s6 + onlineReviews d) \<le> 1 / 2 ^ 43
      \<and> s6 + onlineReviews d - s7 \<le> 1 / 2 ^ 43"
    unfolding s7_def using assms(7) b6 by (intro add64_step) simp_all
  have m: "double_mean d = div64 s7 7"
    by (simp only: double_mean_def s1_def s2_def s3_def s4_def s5_def s6_def s7_def)
  from b7 have q: "0 \<le> s7 / 7" "s7 / 7 \<le> of_int 100"
    by simp_all
  have lo: "0 \<le> div64 s7 7"
    using b7 by (intro div64_nonneg) simp_all
  have hi: "div64 s7 7 \<le> of_int 100"
    unfolding div64_def using q(2) by (intro double_round_le_int) simp_all
  from q have "\<bar>s7 / 7\<bar> \<le> 700"
    by simp
  then have "\<bar>double_round (s7 / 7) - s7 / 7\<bar> \<le> 1 / 2 ^ 43"
    by (rule double_round_close)
  then have c: "div64 s7 7 - s7 / 7 \<le> 1 / 2 ^ 43" "s7 / 7 - div64 s7 7 \<le> 1 / 2 ^ 43"
    unfolding div64_def by linarith+
  define eps where "eps = (1 / 2 ^ 43 :: rat)"
  note e = b1 b2 b3 b4 b5 b6 b7 c
  note e' = e [folded eps_def]
  have sm: "7 * spec_mean d = nameLength d + addressCompleteness d + keywordOptimization d
      + googleRanking d + socialMediaPresence d + localSEO d + onlineReviews d"
    by (simp add: spec_mean_def)
  from e' sm have "div64 s7 7 - spec_mean d \<le> 2 * eps"
    and "spec_mean d - div64 s7 7 \<le> 2 * eps"
    by linarith+
  moreover have "2 * eps = 1 / 2 ^ 42"
    by (simp add: eps_def)
  ultimately have "\<bar>div64 s7 7 - spec_mean d\<bar> \<le> 1 / 2 ^ 42"
    by (simp only: abs_le_iff) simp
  with lo hi m show ?thesis
    by simp
qed

lemma drift'_details:
  "details (metrics_of ''Joe's Pizza Place'' ''123 Main St, Springfield, IL, 62704'' drift_signals')
     = \<lparr>nameLength = 30, addressCompleteness = 40, keywordOptimization = 30,
        googleRanking = 90, socialMediaPresence = 50,
        localSEO = 8373880557142015 / 140737488355328, onlineReviews = 89\<rparr>"
  by code_simp

lemma drift'_double_mean:
  "Math_round (double_mean
      \<lparr>nameLength = 30, addressCompleteness = 40, keywordOptimization = 30,
        googleRanking = 90, socialMediaPresence = 50,
        localSEO = 8373880557142015 / 140737488355328, onlineReviews = 89\<rparr>) = 56"
  by code_simp

lemma drift'_spec_mean:
  "Math_round (spec_mean
      \<lparr>nameLength = 30, addressCompleteness = 40, keywordOptimization = 30,
        googleRanking = 90, socialMediaPresence = 50,
        localSEO = 8373880557142015 / 140737488355328, onlineReviews = 89\<rparr>) = 55"
  by code_simp

text \<open>
  C4, as the specification states it: every sub-score lies in \<open>[0, 100]\<close> and \<open>total\<close> is
  an integer in \<open>[0, 100]\<close> equal to the rounded mean of the seven. The last part fails for
  the number that mean is: with ratings 4.1 and 4.8 and position 10 the sub-scores
  returned are 30, 40, 30, 90, 50, 59.49999999999999 and 89, their mean rounds to 55, and
  the total returned is 56.
\<close>

theorem range_and_mean_counterexample:
  "total (projr (calculateSEOMetrics ''Joe's Pizza Place''
      ''123 Main St, Springfield, IL, 62704'' (Inr drift_signals'))) = 56
   \<and> Math_round (spec_mean (details (projr (calculateSEOMetrics ''Joe's Pizza Place''
      ''123 Main St, Springfield, IL, 62704'' (Inr drift_signals'))))) = 55"
proof -
  let ?s = "metrics_of ''Joe's Pizza Place'' ''123 Main St, Springfield, IL, 62704'' drift_signals'"
  have "total ?s = 56"
    by (simp only: total_metrics drift'_details drift'_double_mean)
  moreover have "Math_round (spec_mean (details ?s)) = 55"
    by (simp only: drift'_details drift'_spec_mean)
  ultimately show ?thesis
    by (simp only: calculateSEOMetrics_Inr sum.sel)
qed

text \<open>
  C4, amended: for every name, every address and every snapshot with a search position of
  at least 0, ratings between 0 and 5 and review counts of at least 0, the call returns a
  score whose seven sub-scores all lie between 0 and 100 and whose \<open>total\<close> is an integer
  between 0 and 100: the nearest integer to the mean of the seven as binary64 arithmetic
  computes it. That mean is within \<open>2\<^sup>-\<^sup>4\<^sup>2\<close> of the mean of the seven as a number, so the
  total is within \<open>1/2 + 2\<^sup>-\<^sup>4\<^sup>2\<close> of it.
\<close>

theorem scores_in_range:
  assumes "0 \<le> googlePosition (searchRanking signals)"
    and "0 \<le> rating (google (api_reviews signals)) \<and> rating (google (api_reviews signals)) \<le> 5"
    and "0 \<le> rating (yelp (api_reviews signals)) \<and> rating (yelp (api_reviews signals)) \<le> 5"
    and "0 \<le> count (google (api_reviews signals))"
    and "0 \<le> count (yelp (api_reviews signals))"
  shows "\<exists>s. calculateSEOMetrics name address (Inr signals) = Inr s
     \<and> 0 \<le> nameLength (details s) \<and> nameLength (details s) \<le> 100
     \<and> 0 \<le> addressCompleteness (details s) \<and> addressCompleteness (details s) \<le> 100
     \<and> 0 \<le> keywordOptimization (details s) \<and> keywordOptimization (details s) \<le> 100
     \<and> 0 \<le> googleRanking (details s) \<and> googleRanking (details s) \<le> 100
     \<and> 0 \<le> socialMediaPresence (details s) \<and> socialMediaPresence (details s) \<le> 100
     \<and> 0 \<le> localSEO (details s) \<and> localSEO (details s) \<le> 100
     \<and> 0 \<le> onlineReviews (details s) \<and> onlineReviews (details s) \<le> 100
     \<and> 0 \<le> total s \<and> total s \<le> 100
     \<and> total s = Math_round (double_mean (details s))
     \<and> \<bar>double_mean (details s) - spec_mean (details s)\<bar> \<le> 1 / 2 ^ 42
     \<and> \<bar>of_int (total s) - spec_mean (details s)\<bar> \<le> 1 / 2 + 1 / 2 ^ 42"
proof -
  let ?s = "metrics_of name address signals"
  note r1 = nameLength_range [of name address signals]
  note r2 = addressCompleteness_range [of name address signals]
  note r3 = keywordOptimization_range [of name address signals]
  note r4 = googleRanking_range [OF assms(1), of name address]
  note r5 = socialMediaPresence_range [of name address signals]
  have r6: "0 \<le> localSEO (details ?s) \<and> localSEO (details ?s) \<le> 100"
    using assms by (intro localSEO_range) simp_all
  have r7: "0 \<le> onlineReviews (details ?s) \<and> onlineReviews (details ?s) \<le> 100"
    using assms by (intro onlineReviews_range) simp_all
  note dm = double_mean_range_close [OF r1 r2 r3 r4 r5 r6 r7]
  have m: "total ?s = Math_round (double_mean (details ?s))"
    by (rule total_metrics)
  from dm have "of_int 0 \<le> double_mean (details ?s)" "double_mean (details ?s) \<le> of_int 100"
    by simp_all
  then have "0 \<le> Math_round (double_mean (details ?s))
      \<and> Math_round (double_mean (details ?s)) \<le> 100"
    by (rule Math_round_range)
  with m have t: "0 \<le> total ?s \<and> total ?s \<le> 100"
    by simp
  from dm have c: "\<bar>double_mean (details ?s) - spec_mean (details ?s)\<bar> \<le> 1 / 2 ^ 42"
    by simp
  have n: "of_int (total ?s) - 1 / 2 \<le> double_mean (details ?s)
      \<and> double_mean (details ?s) < of_int (total ?s) + 1 / 2"
    unfolding m by (rule Math_round_nearest)
  define eps where "eps = (1 / 2 ^ 42 :: rat)"
  from c n have "\<bar>of_int (total ?s) - spec_mean (details ?s)\<bar> \<le> 1 / 2 + eps"
    unfolding eps_def [symmetric] by linarith
  then have c': "\<bar>of_int (total ?s) - spec_mean (details ?s)\<bar> \<le> 1 / 2 + 1 / 2 ^ 42"
    by (simp only: eps_def)
  have "calculateSEOMetrics name address (Inr signals) = Inr ?s"
    by (rule calculateSEOMetrics_Inr)
  with r1 r2 r3 r4 r5 r6 r7 t m c c' show ?thesis
    by (intro exI [of _ ?s] conjI) (simp_all only:)
qed

theorem scores_in_range_witness:
  "0 \<le> googlePosition (searchRanking drift_signals')
   \<and> (0 \<le> rating (google (api_reviews drift_signals'))
        \<and> rating (google (api_reviews drift_signals')) \<le> 5)
   \<and> (0 \<le> rating (yelp (api_reviews drift_signals'))
        \<and> rating (yelp (api_reviews drift_signals')) \<le> 5)
   \<and> 0 \<le> count (google (api_reviews drift_signals'))
   \<and> 0 \<le> count (yelp (api_reviews drift_signals'))
   \<and> (\<exists>s. calculateSEOMetrics ''Joe's Pizza Place'' ''123 Main St, Springfield, IL, 62704''
             (Inr drift_signals') = Inr s
          \<and> 0 \<le> localSEO (details s) \<and> localSEO (details s) \<le> 100
          \<and> 0 \<le> total s \<and> total s \<le> 100 \<and> total s = 56
          \<and> \<bar>of_int (total s) - spec_mean (details s)\<bar> \<le> 1 / 2 + 1 / 2 ^ 42)"
proof -
  let ?s = "metrics_of ''Joe's Pizza Place'' ''123 Main St, Springfield, IL, 62704'' drift_signals'"
  have h1: "0 \<le> googlePosition (searchRanking drift_signals')"
    by (simp add: drift_signals'_def)
  have h2: "0 \<le> rating (google (api_reviews drift_signals'))
        \<and> rating (google (api_reviews drift_signals')) \<le> 5"
    by code_simp
  have h3: "0 \<le> rating (yelp (api_reviews drift_signals'))
        \<and> rating (yelp (api_reviews drift_signals')) \<le> 5"
    by code_simp
  have h4: "0 \<le> count (google (api_reviews drift_signals'))"
    by (simp add: drift_signals'_def)
  have h5: "0 \<le> count (yelp (api_reviews drift_signals'))"
    by (simp add: drift_signals'_def)
  from scores_in_range [OF h1 h2 h3 h4 h5,
      of "''Joe's Pizza Place''" "''123 Main St, Springfield, IL, 62704''"]
  obtain s where s: "calculateSEOMetrics ''Joe's Pizza Place''
        ''123 Main St, Springfield, IL, 62704'' (Inr drift_signals') = Inr s"
    and l: "0 \<le> localSEO (details s)" "localSEO (details s) \<le> 100"
    and t: "0 \<le> total s" "total s \<le> 100" "total s = Math_round (double_mean (details s))"
    and c: "\<bar>of_int (total s) - spec_mean (details s)\<bar> \<le> 1 / 2 + 1 / 2 ^ 42"
    by (elim exE conjE)
  from s have eq: "s = ?s"
    by (simp only: calculateSEOMetrics_Inr sum.inject)
  from t(3) have "total s = 56"
    by (simp only: eq drift'_details drift'_double_mean)
  with l t c have r: "0 \<le> localSEO (details s) \<and> localSEO (details s) \<le> 100
          \<and> 0 \<le> total s \<and> total s \<le> 100 \<and> total s = 56
          \<and> \<bar>of_int (total s) - spec_mean (details s)\<bar> \<le> 1 / 2 + 1 / 2 ^ 42"
    by (intro conjI)
  from conjI [OF s r] have e: "\<exists>s. calculateSEOMetrics ''Joe's Pizza Place''
        ''123 Main St, Springfield, IL, 62704'' (Inr drift_signals') = Inr s
          \<and> 0 \<le> localSEO (details s) \<and> localSEO (details s) \<le> 100
          \<and> 0 \<le> total s \<and> total s \<le> 100 \<and> total s = 56
          \<and> \<bar>of_int (total s) - spec_mean (details s)\<bar> \<le> 1 / 2 + 1 / 2 ^ 42"
    by (rule exI)
  show ?thesis
    by (rule conjI [OF h1 conjI [OF h2 conjI [OF h3 conjI [OF h4 conjI [OF h5 e]]]]])
qed

subsection \<open>The recommendations\<close>

lemma metrics_of_passthrough:
  "socialMedia (metrics_of n a api) = api_socialMedia api"
  "reviews (metrics_of n a api) = api_reviews api"
  "googleRank (searchData (metrics_of n a api)) = googlePosition (searchRanking api)"
  by (simp_all add: metrics_of_def Let_def)

lemma generateRecommendations_append:
  "generateRecommendations score =
     (if googleRanking (details score) < 70 then [ranking_rec score] else [])
     @ (if \<exists>(p, d) \<in> set (socialMedia score). \<not> exists d
        then [social_rec (map fst (filter (\<lambda>(p, d). \<not> exists d) (socialMedia score)))]
        else [])
     @ (if count (google (reviews score)) < 100 \<or> count (yelp (reviews score)) < 50
        then [reviews_rec score] else [])"
  by (auto simp add: generateRecommendations_def push_def Let_def filter_empty_conv)

lemma join_Cons: "join (x # xs) sep = x @ concat (map (\<lambda>y. sep @ y) xs)"
  by (induction xs arbitrary: x) simp_all

lemma join_cases:
  "join xs sep = (case xs of [] \<Rightarrow> [] | x # ys \<Rightarrow> x @ concat (map (\<lambda>y. sep @ y) ys))"
  by (cases xs) (simp_all add: join_Cons)

lemma exists_false_Cons:
  "exists_false ((p, d) # sm) q = (if q = p then \<not> exists d else exists_false sm q)"
  by (simp add: exists_false_def)

lemma missing_names:
  "distinct (map fst sm) \<Longrightarrow>
   map fst (filter (\<lambda>(p, d). \<not> exists d) sm) = filter (exists_false sm) (map fst sm)"
proof (induction sm)
  case Nil
  show ?case by simp
next
  case (Cons e sm)
  obtain p d where e: "e = (p, d)"
    by (cases e)
  from Cons.prems e have p: "p \<notin> set (map fst sm)" and dist: "distinct (map fst sm)"
    by simp_all
  from p have "filter (exists_false ((p, d) # sm)) (map fst sm) = filter (exists_false sm) (map fst sm)"
    by (intro filter_cong) (auto simp add: exists_false_Cons)
  moreover have "exists_false ((p, d) # sm) p \<longleftrightarrow> \<not> exists d"
    by (simp add: exists_false_Cons)
  ultimately show ?case
    using Cons.IH [OF dist] e by simp
qed

lemma exists_false_listed:
  assumes "exists_false sm p"
  shows "p \<in> set (map fst sm)"
proof -
  from assms obtain d where "map_of sm p = Some d"
    by (cases "map_of sm p") (simp_all add: exists_false_def)
  then have "(p, d) \<in> set sm"
    by (rule map_of_SomeD)
  then show ?thesis
    by force
qed

lemma exists_false_platform_exists:
  "p \<in> set (map fst sm) \<Longrightarrow> exists_false sm p \<longleftrightarrow> \<not> platform_exists sm p"
  by (auto simp add: exists_false_def platform_exists_def map_of_eq_None_iff split: option.splits)

lemma rule2_fires_iff_missing:
  "(\<exists>(p, d) \<in> set sm. \<not> exists d) \<longleftrightarrow> map fst (filter (\<lambda>(p, d). \<not> exists d) sm) \<noteq> []"
  by (auto simp add: filter_empty_conv)

lemma tracked_only_fires:
  assumes "tracked_only sm"
  shows "(\<exists>(p, d) \<in> set sm. \<not> exists d) \<longleftrightarrow> (\<exists>p \<in> set socialPlatforms. exists_false sm p)"
proof -
  from assms have dist: "distinct (map fst sm)" and sub: "set (map fst sm) \<subseteq> set socialPlatforms"
    by (simp_all add: tracked_only_def)
  have "(\<exists>(p, d) \<in> set sm. \<not> exists d) \<longleftrightarrow> filter (exists_false sm) (map fst sm) \<noteq> []"
    by (simp only: rule2_fires_iff_missing missing_names [OF dist])
  also have "\<dots> \<longleftrightarrow> (\<exists>p \<in> set (map fst sm). exists_false sm p)"
    by (auto simp add: filter_empty_conv)
  also have "\<dots> \<longleftrightarrow> (\<exists>p \<in> set socialPlatforms. exists_false sm p)"
    using sub exists_false_listed [of sm] by blast
  finally show ?thesis .
qed

lemma all_tracked_missing:
  assumes "all_tracked sm"
  shows "map fst (filter (\<lambda>(p, d). \<not> exists d) sm)
           = filter (\<lambda>p. \<not> platform_exists sm p) socialPlatforms"
proof -
  from assms have keys: "map fst sm = socialPlatforms"
    by (simp add: all_tracked_def)
  then have "distinct (map fst sm)"
    by (simp add: socialPlatforms_def)
  then have "map fst (filter (\<lambda>(p, d). \<not> exists d) sm) = filter (exists_false sm) (map fst sm)"
    by (rule missing_names)
  also have "\<dots> = filter (\<lambda>p. \<not> platform_exists sm p) (map fst sm)"
    by (intro filter_cong) (simp_all add: exists_false_platform_exists)
  finally show ?thesis
    by (simp only: keys)
qed

text \<open>
  C5: the recommendations are the outcome of three rules taken in a fixed order, each
  contributing one record or none: the ranking record (status poor, priority high) exactly
  when \<open>googleRanking < 70\<close>; the social media record (status warning, priority medium)
  exactly when some platform listed in the score has \<open>exists = false\<close>, its message
  naming those platforms, each after the first preceded by a comma and a space; the
  reviews record (status warning, priority high) exactly when the Google count is below
  100 or the Yelp count below 50. So there are at most three, in rule order whatever their
  priorities. On a score that lists tracked platforms only, the second rule fires exactly
  when one of the four tracked platforms is listed with \<open>exists = false\<close>; on a score that
  lists all four, the platforms named are the tracked ones that \<open>calculateSEOMetrics\<close>
  did not count, in the tracked order.
\<close>

theorem generateRecommendations_rules:
  "generateRecommendations score =
     (if googleRanking (details score) < 70 then [ranking_rec score] else [])
     @ (if \<exists>(p, d) \<in> set (socialMedia score). \<not> exists d
        then [social_rec (map fst (filter (\<lambda>(p, d). \<not> exists d) (socialMedia score)))]
        else [])
     @ (if count (google (reviews score)) < 100 \<or> count (yelp (reviews score)) < 50
        then [reviews_rec score] else [])
   \<and> category (ranking_rec score) = ''Search Engine Ranking''
   \<and> status (ranking_rec score) = poor \<and> priority (ranking_rec score) = high
   \<and> category (social_rec missing) = ''Social Media Presence''
   \<and> status (social_rec missing) = warning \<and> priority (social_rec missing) = medium
   \<and> message (social_rec missing) = ''Missing presence on: '' @ join missing '', ''
   \<and> join missing '', ''
       = (case missing of [] \<Rightarrow> [] | p # ps \<Rightarrow> p @ concat (map (\<lambda>q. '', '' @ q) ps))
   \<and> category (reviews_rec score) = ''Online Reviews''
   \<and> status (reviews_rec score) = warning \<and> priority (reviews_rec score) = high
   \<and> length (generateRecommendations score) \<le> 3
   \<and> (tracked_only (socialMedia score) \<longrightarrow>
        ((\<exists>(p, d) \<in> set (socialMedia score). \<not> exists d)
          \<longleftrightarrow> (\<exists>p \<in> set socialPlatforms. exists_false (socialMedia score) p)))
   \<and> (all_tracked (socialMedia score) \<longrightarrow>
        map fst (filter (\<lambda>(p, d). \<not> exists d) (socialMedia score))
          = filter (\<lambda>p. \<not> platform_exists (socialMedia score) p) socialPlatforms)"
proof -
  have len: "length (generateRecommendations score) \<le> 3"
    by (simp add: generateRecommendations_append)
  have lits: "category (ranking_rec score) = ''Search Engine Ranking''
   \<and> status (ranking_rec score) = poor \<and> priority (ranking_rec score) = high
   \<and> category (social_rec missing) = ''Social Media Presence''
   \<and> status (social_rec missing) = warning \<and> priority (social_rec missing) = medium
   \<and> message (social_rec missing) = ''Missing presence on: '' @ join missing '', ''"
    by (simp add: ranking_rec_def social_rec_def)
  have lits': "category (reviews_rec score) = ''Online Reviews''
   \<and> status (reviews_rec score) = warning \<and> priority (reviews_rec score) = high"
    by (simp add: reviews_rec_def)
  have j: "join missing '', ''
       = (case missing of [] \<Rightarrow> [] | p # ps \<Rightarrow> p @ concat (map (\<lambda>q. '', '' @ q) ps))"
    by (rule join_cases)
  have t: "tracked_only (socialMedia score) \<longrightarrow>
        ((\<exists>(p, d) \<in> set (socialMedia score). \<not> exists d)
          \<longleftrightarrow> (\<exists>p \<in> set socialPlatforms. exists_false (socialMedia score) p))"
    using tracked_only_fires [of "socialMedia score"] by (rule impI)
  have a: "all_tracked (socialMedia score) \<longrightarrow>
        map fst (filter (\<lambda>(p, d). \<not> exists d) (socialMedia score))
          = filter (\<lambda>p. \<not> platform_exists (socialMedia score) p) socialPlatforms"
    using all_tracked_missing [of "socialMedia score"] by (rule impI)
  note g = generateRecommendations_append [of score]
  show ?thesis
    by (rule conjI [OF g conjI [OF lits [THEN conjunct1]]]) (use lits lits' j len t a in blast)
qed

theorem generateRecommendations_rules_witness:
  "tracked_only (socialMedia (metrics_of ''Joe's Pizza Place'' ''1 Main St'' sample_signals))
   \<and> all_tracked (socialMedia (metrics_of ''Joe's Pizza Place'' ''1 Main St'' sample_signals))
   \<and> generateRecommendations (metrics_of ''Joe's Pizza Place'' ''1 Main St'' sample_signals)
     = [ranking_rec (metrics_of ''Joe's Pizza Place'' ''1 Main St'' sample_signals),
        social_rec [''instagram'', ''linkedin''],
        reviews_rec (metrics_of ''Joe's Pizza Place'' ''1 Main St'' sample_signals)]
   \<and> message (social_rec [''instagram'', ''linkedin''])
       = ''Missing presence on: instagram, linkedin''
   \<and> filter (\<lambda>p. \<not> platform_exists
          (socialMedia (metrics_of ''Joe's Pizza Place'' ''1 Main St'' sample_signals)) p)
        socialPlatforms = [''instagram'', ''linkedin'']
   \<and> map priority
        (generateRecommendations (metrics_of ''Joe's Pizza Place'' ''1 Main St'' sample_signals))
       = [high, medium, high]
   \<and> map priority
        (generateRecommendations (metrics_of ''Joe's Pizza Place'' ''1 Main St''
           (sample_signals\<lparr>searchRanking :=
              \<lparr>googlePosition = 10, monthlySearches = 1000, competitorRanks = []\<rparr>\<rparr>)))
       = [medium, high]"
proof -
  let ?S = "metrics_of ''Joe's Pizza Place'' ''1 Main St'' sample_signals"
  let ?S' = "metrics_of ''Joe's Pizza Place'' ''1 Main St''
           (sample_signals\<lparr>searchRanking :=
              \<lparr>googlePosition = 10, monthlySearches = 1000, competitorRanks = []\<rparr>\<rparr>)"
  have sm: "socialMedia ?S =
        [(''facebook'', \<lparr>exists = True, followers = Some 10\<rparr>),
         (''instagram'', \<lparr>exists = False, followers = Some 20\<rparr>),
         (''twitter'', \<lparr>exists = True, followers = Some 30\<rparr>),
         (''linkedin'', \<lparr>exists = False, followers = Some 40\<rparr>)]"
    by (simp add: metrics_of_passthrough sample_signals_def)
  have h1: "tracked_only (socialMedia ?S)"
    by (simp add: sm tracked_only_def socialPlatforms_def)
  have h2: "all_tracked (socialMedia ?S)"
    by (simp add: sm all_tracked_def socialPlatforms_def)
  note r = generateRecommendations_rules [of ?S "[''instagram'', ''linkedin'']"]
  note r' = generateRecommendations_rules [of ?S' "[''instagram'', ''linkedin'']"]
  from r h2 have m: "map fst (filter (\<lambda>(p, d). \<not> exists d) (socialMedia ?S))
          = filter (\<lambda>p. \<not> platform_exists (socialMedia ?S) p) socialPlatforms"
    by (elim conjE) (erule mp)
  have m': "map fst (filter (\<lambda>(p, d). \<not> exists d) (socialMedia ?S)) = [''instagram'', ''linkedin'']"
    by (simp add: sm)
  from r have g: "generateRecommendations ?S
      = [ranking_rec ?S, social_rec [''instagram'', ''linkedin''], reviews_rec ?S]"
    by (simp add: metrics_of_passthrough googleRanking_metrics sample_signals_def)
  from r have msg: "message (social_rec [''instagram'', ''linkedin''])
       = ''Missing presence on: instagram, linkedin''"
    by simp
  from r have p: "map priority (generateRecommendations ?S) = [high, medium, high]"
    by (simp add: metrics_of_passthrough googleRanking_metrics sample_signals_def)
  from r' have p': "map priority (generateRecommendations ?S') = [medium, high]"
    by (simp add: metrics_of_passthrough googleRanking_metrics sample_signals_def)
  from m m' have f: "filter (\<lambda>p. \<not> platform_exists (socialMedia ?S) p) socialPlatforms
      = [''instagram'', ''linkedin'']"
    by simp
  show ?thesis
    by (rule conjI [OF h1 conjI [OF h2 conjI [OF g conjI [OF msg conjI [OF f conjI [OF p p']]]]]])
qed

lemma rec_priorities:
  "priority (ranking_rec score) = high"
  "priority (social_rec missing) = medium"
  "priority (reviews_rec score) = high"
  by (simp_all add: ranking_rec_def social_rec_def reviews_rec_def)

text \<open>
  C10: every recommendation that \<open>generateRecommendations\<close> returns has priority high or
  medium; none has priority low, although the type has that value.
\<close>

theorem priorities_high_or_medium:
  "\<forall>r \<in> set (generateRecommendations score).
     (priority r = high \<or> priority r = medium) \<and> priority r \<noteq> low"
  by (auto simp add: generateRecommendations_append rec_priorities)

theorem priorities_high_or_medium_witness:
  "social_rec [''instagram'', ''linkedin'']
     \<in> set (generateRecommendations
              (metrics_of ''Joe's Pizza Place'' ''1 Main St'' sample_signals))
   \<and> (priority (social_rec [''instagram'', ''linkedin'']) = high
        \<or> priority (social_rec [''instagram'', ''linkedin'']) = medium)
   \<and> priority (social_rec [''instagram'', ''linkedin'']) \<noteq> low"
proof -
  let ?S = "metrics_of ''Joe's Pizza Place'' ''1 Main St'' sample_signals"
  have m: "social_rec [''instagram'', ''linkedin''] \<in> set (generateRecommendations ?S)"
    by (simp add: generateRecommendations_append metrics_of_passthrough googleRanking_metrics
        sample_signals_def)
  with priorities_high_or_medium [of ?S]
  have "(priority (social_rec [''instagram'', ''linkedin'']) = high
        \<or> priority (social_rec [''instagram'', ''linkedin'']) = medium)
   \<and> priority (social_rec [''instagram'', ''linkedin'']) \<noteq> low"
    by (rule bspec)
  with m show ?thesis
    by (rule conjI)
qed

subsection \<open>The keyword count\<close>

lemma is_whitespace_lower_char: "is_whitespace (lower_char c) \<longleftrightarrow> is_whitespace c"
  by (simp add: is_whitespace_def lower_char_low)

lemma split_from_map_lower_char:
  "split_from (map lower_char cur) CHR '' '' (map lower_char s)
     = map (map lower_char) (split_from cur CHR '' '' s)"
proof (induction s arbitrary: cur)
  case Nil
  show ?case by simp
next
  case (Cons x xs)
  show ?case
  proof (cases "x = CHR '' ''")
    case True
    with Cons.IH [of "[]"] show ?thesis
      by (simp add: lower_char_space)
  next
    case False
    with Cons.IH [of "cur @ [x]"] show ?thesis
      by (simp add: lower_char_space)
  qed
qed

lemma split_from_covers:
  "x \<in> set cur \<Longrightarrow> \<exists>w \<in> set (split_from cur c s). x \<in> set w"
  by (induction s arbitrary: cur) simp_all

lemma spec_tokens_from_eq_split_from:
  "list_all clean_piece (split_from cur CHR '' '' s)
     \<Longrightarrow> spec_tokens_from cur s = split_from cur CHR '' '' s"
proof (induction s arbitrary: cur)
  case Nil
  then show ?case by (simp add: clean_piece_def)
next
  case (Cons x xs)
  show ?case
  proof (cases "x = CHR '' ''")
    case True
    with Cons.prems have "clean_piece cur"
      and rest: "list_all clean_piece (split_from [] CHR '' '' xs)"
      by simp_all
    then have "cur \<noteq> []"
      by (simp add: clean_piece_def)
    with True Cons.IH [OF rest] show ?thesis
      by (simp add: is_whitespace_def)
  next
    case False
    with Cons.prems have rest: "list_all clean_piece (split_from (cur @ [x]) CHR '' '' xs)"
      by simp
    obtain w where "w \<in> set (split_from (cur @ [x]) CHR '' '' xs)" and "x \<in> set w"
      using split_from_covers [of x "cur @ [x]" "CHR '' ''" xs] by auto
    with rest have "\<not> is_whitespace x"
      by (auto simp add: list_all_iff clean_piece_def)
    with False Cons.IH [OF rest] show ?thesis
      by simp
  qed
qed

lemma clean_piece_toLowerCase: "clean_piece (toLowerCase w) \<longleftrightarrow> clean_piece w"
  by (simp add: clean_piece_def toLowerCase_def list_all_iff is_whitespace_lower_char)

lemma spec_tokens_eq_split:
  assumes "list_all clean_piece (split_js name CHR '' '')"
  shows "spec_whitespace_tokens (toLowerCase name) = split_js (toLowerCase name) CHR '' ''"
proof -
  have "split_from [] CHR '' '' (toLowerCase name)
          = map toLowerCase (split_from [] CHR '' '' name)"
    using split_from_map_lower_char [of "[]" name] by (simp add: toLowerCase_def [abs_def])
  with assms have "list_all clean_piece (split_from [] CHR '' '' (toLowerCase name))"
    by (simp add: split_js_def list_all_iff clean_piece_toLowerCase)
  then show ?thesis
    unfolding spec_whitespace_tokens_def split_js_def
    by (rule spec_tokens_from_eq_split_from)
qed

text \<open>
  C3, as the specification states it: \<open>keywordOptimization\<close> is \<open>min(tokenCount \<times> 10, 30)\<close>
  for the number of whitespace-separated tokens of the lower-cased name. It is not: the
  code cuts the name at every single space, so the two spaces of \<open>Joe's  Pizza\<close> enclose
  an empty third piece and the score is 30, where the two tokens would give 20.
\<close>

theorem keywordOptimization_counterexample:
  "keywordOptimization (details (projr
     (calculateSEOMetrics ''Joe's  Pizza'' ''1 Main St'' (Inr sample_signals)))) = 30
   \<and> min (of_nat (length (spec_whitespace_tokens (toLowerCase ''Joe's  Pizza''))) * 10) 30
       = (20 :: rat)"
  by code_simp

text \<open>
  C3, amended: the call returns a score whose \<open>keywordOptimization\<close> is 0 for the empty
  name and otherwise \<open>min(pieces \<times> 10, 30)\<close>, where \<open>pieces\<close> is the number of pieces
  that cutting the lower-cased name at every space character leaves, one more than the
  name has space characters (empty pieces count, other whitespace does not cut). Whenever
  each of those pieces is non-empty and free of whitespace, this is the specification's
  \<open>min(tokenCount \<times> 10, 30)\<close>.
\<close>

theorem keywordOptimization_split_on_space:
  "\<exists>s. calculateSEOMetrics name address (Inr signals) = Inr s
     \<and> keywordOptimization (details s) =
         (if name = [] then 0
          else min (of_nat (length (split_js (toLowerCase name) CHR '' '')) * 10) 30)
     \<and> length (split_js (toLowerCase name) CHR '' '')
         = Suc (length (filter (\<lambda>c. c = CHR '' '') name))
     \<and> (list_all clean_piece (split_js name CHR '' '') \<longrightarrow>
          keywordOptimization (details s) =
            min (of_nat (length (spec_whitespace_tokens (toLowerCase name))) * 10) 30)"
proof -
  let ?s = "metrics_of name address signals"
  have a: "keywordOptimization (details ?s) =
         (if name = [] then 0
          else min (of_nat (length (split_js (toLowerCase name) CHR '' '')) * 10) 30)"
    by (rule keywordOptimization_metrics)
  have b: "length (split_js (toLowerCase name) CHR '' '')
         = Suc (length (filter (\<lambda>c. c = CHR '' '') name))"
    by (simp add: length_split_js filter_space_toLowerCase)
  have c: "keywordOptimization (details ?s) =
            min (of_nat (length (spec_whitespace_tokens (toLowerCase name))) * 10) 30"
    if clean: "list_all clean_piece (split_js name CHR '' '')"
  proof -
    from clean have "name \<noteq> []"
      by (auto simp add: split_js_def clean_piece_def)
    with a spec_tokens_eq_split [OF clean] show ?thesis
      by simp
  qed
  have "calculateSEOMetrics name address (Inr signals) = Inr ?s"
    by (rule calculateSEOMetrics_Inr)
  with a b c show ?thesis
    by blast
qed

theorem keywordOptimization_split_on_space_witness:
  "list_all clean_piece (split_js ''Joe's Pizza'' CHR '' '')
   \<and> (\<exists>s. calculateSEOMetrics ''Joe's Pizza'' ''1 Main St'' (Inr sample_signals) = Inr s
          \<and> keywordOptimization (details s) = 20
          \<and> keywordOptimization (details s)
              = min (of_nat (length (spec_whitespace_tokens (toLowerCase ''Joe's Pizza''))) * 10) 30)"
proof -
  have h: "list_all clean_piece (split_js ''Joe's Pizza'' CHR '' '')"
    by code_simp
  from keywordOptimization_split_on_space [of "''Joe's Pizza''" "''1 Main St''" sample_signals]
  obtain s where s: "calculateSEOMetrics ''Joe's Pizza'' ''1 Main St'' (Inr sample_signals) = Inr s"
    and k: "keywordOptimization (details s) =
         (if ''Joe's Pizza'' = [] then 0
          else min (of_nat (length (split_js (toLowerCase ''Joe's Pizza'') CHR '' '')) * 10) 30)"
    and l: "length (split_js (toLowerCase ''Joe's Pizza'') CHR '' '')
         = Suc (length (filter (\<lambda>c. c = CHR '' '') ''Joe's Pizza''))"
    and i: "list_all clean_piece (split_js ''Joe's Pizza'' CHR '' '') \<longrightarrow>
          keywordOptimization (details s) =
            min (of_nat (length (spec_whitespace_tokens (toLowerCase ''Joe's Pizza''))) * 10) 30"
    by blast
  from k l have "keywordOptimization (details s) = 20"
    by simp
  moreover from i h have "keywordOptimization (details s) =
            min (of_nat (length (spec_whitespace_tokens (toLowerCase ''Joe's Pizza''))) * 10) 30"
    by (rule mp)
  ultimately show ?thesis
    using h s by blast
qed

end
